theory Spec2Isabelle
  imports Complex_Main "HOL-Library.Sublist"
begin


section \<open>Authentication context (AuthContext provider)\<close>

text \<open>
  The provider keeps an \<open>AuthState\<close> in a reducer and two tokens in the browser's
  \<open>localStorage\<close>. The \<open>User\<close> type is imported from another module; it is a type
  parameter here. A nullable field is an option.
\<close>

record 'u AuthState =
  user :: "'u option"
  isAuthenticated :: bool
  isLoading :: bool
  error :: "string option"

datatype 'u AuthAction =
    LOGIN_START
  | LOGIN_SUCCESS 'u
  | LOGIN_FAILURE string
  | LOGOUT
  | CLEAR_ERROR
  | SET_LOADING bool

definition initialState :: "'u AuthState" where
  "initialState = \<lparr>user = None, isAuthenticated = False, isLoading = True, error = None\<rparr>"

fun authReducer :: "'u AuthState \<Rightarrow> 'u AuthAction \<Rightarrow> 'u AuthState" where
  "authReducer s LOGIN_START = s\<lparr>isLoading := True, error := None\<rparr>"
| "authReducer s (LOGIN_SUCCESS payload) =
     s\<lparr>user := Some payload, isAuthenticated := True, isLoading := False, error := None\<rparr>"
| "authReducer s (LOGIN_FAILURE payload) =
     s\<lparr>user := None, isAuthenticated := False, isLoading := False, error := Some payload\<rparr>"
| "authReducer s LOGOUT =
     s\<lparr>user := None, isAuthenticated := False, isLoading := False, error := None\<rparr>"
| "authReducer s CLEAR_ERROR = s\<lparr>error := None\<rparr>"
| "authReducer s (SET_LOADING payload) = s\<lparr>isLoading := payload\<rparr>"

text \<open>
  \<open>localStorage\<close> maps keys to strings; \<open>getItem\<close> of an absent key is \<open>null\<close>.
  A JavaScript condition on a \<open>string | null\<close> is true for a non-empty string only.
\<close>

type_synonym Storage = "string \<rightharpoonup> string"

definition getItem :: "string \<Rightarrow> Storage \<Rightarrow> string option" where
  "getItem k st = st k"

definition setItem :: "string \<Rightarrow> string \<Rightarrow> Storage \<Rightarrow> Storage" where
  "setItem k v st = st(k \<mapsto> v)"

definition removeItem :: "string \<Rightarrow> Storage \<Rightarrow> Storage" where
  "removeItem k st = st(k := None)"

definition truthy :: "string option \<Rightarrow> bool" where
  "truthy t = (case t of None \<Rightarrow> False | Some s \<Rightarrow> s \<noteq> [])"

text \<open>
  A thrown value is an \<open>Error\<close> object with its message, or any other value.
  A promise settles as \<open>Inr\<close> (resolved) or \<open>Inl\<close> (rejected with the thrown value).
\<close>

datatype thrown = Error string | NotAnError

definition message_or :: "string \<Rightarrow> thrown \<Rightarrow> string" where
  "message_or dflt e = (case e of Error m \<Rightarrow> m | NotAnError \<Rightarrow> dflt)"

record login_response =
  mfa_required :: bool
  access_token :: string
  refresh_token :: string

record token_response =
  new_access_token :: string
  new_refresh_token :: string

text \<open>
  The module \<open>authService\<close> performs the network calls and is outside the provider: the
  way each call settles is a parameter. \<open>getCurrentUser\<close> may depend on what is stored.
\<close>

record 'u AuthService =
  svc_login :: "string \<Rightarrow> string \<Rightarrow> thrown + login_response"
  svc_getCurrentUser :: "Storage \<Rightarrow> thrown + 'u"
  svc_logout :: "thrown + unit"
  svc_refreshToken :: "string \<Rightarrow> thrown + token_response"

record 'u client =
  state :: "'u AuthState"
  localStorage :: Storage

definition dispatch :: "'u AuthAction \<Rightarrow> 'u client \<Rightarrow> 'u client" where
  "dispatch a c = c\<lparr>state := authReducer (state c) a\<rparr>"

definition store_set :: "string \<Rightarrow> string \<Rightarrow> 'u client \<Rightarrow> 'u client" where
  "store_set k v c = c\<lparr>localStorage := setItem k v (localStorage c)\<rparr>"

definition store_remove :: "string \<Rightarrow> 'u client \<Rightarrow> 'u client" where
  "store_remove k c = c\<lparr>localStorage := removeItem k (localStorage c)\<rparr>"

text \<open>The effect run once when the provider mounts.\<close>

definition initAuth :: "'u AuthService \<Rightarrow> 'u client \<Rightarrow> 'u client" where
  "initAuth svc c =
     (let token = getItem ''accessToken'' (localStorage c) in
      if truthy token then
        (case svc_getCurrentUser svc (localStorage c) of
           Inr u \<Rightarrow> dispatch (LOGIN_SUCCESS u) c
         | Inl e \<Rightarrow>
             dispatch (SET_LOADING False)
               (store_remove ''refreshToken'' (store_remove ''accessToken'' c)))
      else dispatch (SET_LOADING False) c)"

text \<open>
  \<open>login\<close>: the body of the \<open>try\<close> block returns the thrown value, if any, with the
  client as it is at that point; the \<open>catch\<close> clause turns every thrown value into a
  \<open>LOGIN_FAILURE\<close> and the promise resolves.
\<close>

definition login_try :: "'u AuthService \<Rightarrow> string \<Rightarrow> string \<Rightarrow> 'u client
                          \<Rightarrow> (thrown + unit) \<times> 'u client" where
  "login_try svc email password c =
     (case svc_login svc email password of
        Inl e \<Rightarrow> (Inl e, c)
      | Inr response \<Rightarrow>
          if mfa_required response then (Inl (Error ''MFA not implemented in this demo''), c)
          else
            (let c1 = store_set ''accessToken'' (access_token response) c;
                 c2 = store_set ''refreshToken'' (refresh_token response) c1
             in case svc_getCurrentUser svc (localStorage c2) of
                  Inl e \<Rightarrow> (Inl e, c2)
                | Inr u \<Rightarrow> (Inr (), dispatch (LOGIN_SUCCESS u) c2)))"

definition login :: "'u AuthService \<Rightarrow> string \<Rightarrow> string \<Rightarrow> 'u client
                      \<Rightarrow> (thrown + unit) \<times> 'u client" where
  "login svc email password c =
     (case login_try svc email password (dispatch LOGIN_START c) of
        (Inr u, c') \<Rightarrow> (Inr (), c')
      | (Inl e, c') \<Rightarrow> (Inr (), dispatch (LOGIN_FAILURE (message_or ''Login failed'' e)) c'))"

text \<open>
  \<open>logout\<close>: the service call's failure is ignored; the \<open>finally\<close> block always runs.
\<close>

definition logout :: "'u AuthService \<Rightarrow> 'u client \<Rightarrow> (thrown + unit) \<times> 'u client" where
  "logout svc c =
     (let ignored = (case svc_logout svc of Inl e \<Rightarrow> () | Inr u \<Rightarrow> ())
      in (Inr (),
          dispatch LOGOUT (store_remove ''refreshToken'' (store_remove ''accessToken'' c))))"

text \<open>
  \<open>refreshToken\<close>: the guard throws before the \<open>try\<close> block. In the \<open>catch\<close> clause
  \<open>logout()\<close> is started and not awaited; the client returned on that path is the one
  left once the started \<open>logout\<close> has run to its end.
\<close>

definition refreshToken :: "'u AuthService \<Rightarrow> 'u client \<Rightarrow> (thrown + unit) \<times> 'u client" where
  "refreshToken svc c =
     (case getItem ''refreshToken'' (localStorage c) of
        None \<Rightarrow> (Inl (Error ''No refresh token available''), c)
      | Some tok \<Rightarrow>
          if \<not> truthy (Some tok) then (Inl (Error ''No refresh token available''), c)
          else
            (case svc_refreshToken svc tok of
               Inr response \<Rightarrow>
                 (Inr (),
                  store_set ''refreshToken'' (new_refresh_token response)
                    (store_set ''accessToken'' (new_access_token response) c))
             | Inl e \<Rightarrow> (Inl e, snd (logout svc c))))"

text \<open>Concrete services and clients used in the examples below.\<close>

definition svc_invalid :: "string AuthService" where
  "svc_invalid = \<lparr>svc_login = (\<lambda>e p. Inl (Error ''Unauthorized'')),
                   svc_getCurrentUser = (\<lambda>st. Inl (Error ''Unauthorized'')),
                   svc_logout = Inr (),
                   svc_refreshToken = (\<lambda>t. Inl (Error ''Unauthorized''))\<rparr>"

definition svc_mfa :: "string AuthService" where
  "svc_mfa = \<lparr>svc_login = (\<lambda>e p. Inr \<lparr>mfa_required = True, access_token = [], refresh_token = []\<rparr>),
               svc_getCurrentUser = (\<lambda>st. Inr ''alice''),
               svc_logout = Inr (),
               svc_refreshToken = (\<lambda>t. Inl (Error ''Unauthorized''))\<rparr>"

definition client_empty_token :: "string client" where
  "client_empty_token =
     \<lparr>state = initialState, localStorage = [''accessToken'' \<mapsto> [], ''refreshToken'' \<mapsto> ''r1'']\<rparr>"

definition client_stale_token :: "string client" where
  "client_stale_token =
     \<lparr>state = initialState, localStorage = [''accessToken'' \<mapsto> ''a1'', ''refreshToken'' \<mapsto> ''r1'']\<rparr>"

definition client_no_refresh :: "string client" where
  "client_no_refresh =
     \<lparr>state = \<lparr>user = Some ''alice'', isAuthenticated = True, isLoading = False, error = None\<rparr>,
      localStorage = [''accessToken'' \<mapsto> ''a1'']\<rparr>"

definition client_signed_in :: "string client" where
  "client_signed_in =
     \<lparr>state = \<lparr>user = Some ''alice'', isAuthenticated = True, isLoading = False, error = None\<rparr>,
      localStorage = [''accessToken'' \<mapsto> ''a1'', ''refreshToken'' \<mapsto> ''r1'']\<rparr>"

definition svc_refresh_fails :: "string AuthService" where
  "svc_refresh_fails = \<lparr>svc_login = (\<lambda>e p. Inl (Error ''Unauthorized'')),
                   svc_getCurrentUser = (\<lambda>st. Inr ''alice''),
                   svc_logout = Inl (Error ''Network Error''),
                   svc_refreshToken = (\<lambda>t. Inl (Error ''Request failed with status code 401''))\<rparr>"

section \<open>Dashboard page: derived figures\<close>

text \<open>
  A JavaScript number is an IEEE 754 double: a finite value, which is a rational of the
  form \<open>m * 2^k\<close> with a 53-bit \<open>m\<close>, or \<open>Infinity\<close>, \<open>-Infinity\<close> or \<open>NaN\<close>. Negative
  zero is identified with zero: a sum that starts from \<open>0\<close> is never \<open>-0\<close>, and
  \<open>-0 || 0\<close> is \<open>0\<close>.
\<close>

datatype js_number = Num rat | Infinity | NegInfinity | NaN

text \<open>
  Rounding a rational to the nearest double, ties to even: \<open>floor_log2\<close> is the binary
  exponent of a positive rational, bounded below by -1022 (subnormal numbers); the
  spacing of the doubles at that exponent is \<open>2^(e - 52)\<close>; a result of magnitude
  \<open>2^1024\<close> or more overflows.
\<close>

fun bits :: "int \<Rightarrow> nat" where
  "bits n = (if n \<le> 0 then 0 else Suc (bits (n div 2)))"

declare bits.simps [simp del]

definition pow2 :: "int \<Rightarrow> rat" where
  "pow2 k = (if 0 \<le> k then 2 ^ nat k else 1 / 2 ^ nat (- k))"

definition floor_log2 :: "rat \<Rightarrow> int" where
  "floor_log2 x =
     (let k = int (bits (fst (quotient_of x))) - int (bits (snd (quotient_of x)))
      in if pow2 k \<le> x then k else k - 1)"

definition round_half_even :: "rat \<Rightarrow> int" where
  "round_half_even n =
     (let r = \<lfloor>n\<rfloor>; f = n - of_int r
      in if f < 1 / 2 then r else if 1 / 2 < f then r + 1 else if even r then r else r + 1)"

definition round_double :: "rat \<Rightarrow> js_number" where
  "round_double x =
     (if x = 0 then Num 0
      else
        (let e = max (floor_log2 (abs x)) (- 1022);
             quantum = pow2 (e - 52);
             y = of_int (round_half_even (x / quantum)) * quantum
         in if pow2 1024 \<le> abs y then (if 0 < x then Infinity else NegInfinity) else Num y))"

text \<open>Addition, negation and subtraction of doubles.\<close>

fun js_add :: "js_number \<Rightarrow> js_number \<Rightarrow> js_number" where
  "js_add NaN b = NaN"
| "js_add a NaN = NaN"
| "js_add Infinity NegInfinity = NaN"
| "js_add NegInfinity Infinity = NaN"
| "js_add Infinity b = Infinity"
| "js_add a Infinity = Infinity"
| "js_add NegInfinity b = NegInfinity"
| "js_add a NegInfinity = NegInfinity"
| "js_add (Num x) (Num y) = round_double (x + y)"

fun js_neg :: "js_number \<Rightarrow> js_number" where
  "js_neg (Num x) = Num (- x)"
| "js_neg Infinity = NegInfinity"
| "js_neg NegInfinity = Infinity"
| "js_neg NaN = NaN"

instantiation js_number :: "{zero, plus, uminus, minus}"
begin

definition zero_js_number :: js_number where
  "zero_js_number = Num 0"

definition plus_js_number :: "js_number \<Rightarrow> js_number \<Rightarrow> js_number" where
  "plus_js_number a b = js_add a b"

definition uminus_js_number :: "js_number \<Rightarrow> js_number" where
  "uminus_js_number a = js_neg a"

definition minus_js_number :: "js_number \<Rightarrow> js_number \<Rightarrow> js_number" where
  "minus_js_number a b = js_add a (js_neg b)"

instance ..

end

text \<open>
  The page reads \<open>current_balance\<close> of each fetched account and \<open>total_income\<close> and
  \<open>total_expenses\<close> of the fetched summary; a query result that is not there is
  \<open>undefined\<close> (\<open>None\<close>). The records are extensible: an account or summary may carry
  further fields.
\<close>

record Account =
  current_balance :: js_number

record TransactionSummary =
  total_income :: js_number
  total_expenses :: js_number

text \<open>
  \<open>v || 0\<close>: the value \<open>v\<close> unless it is \<open>undefined\<close>, \<open>0\<close> or \<open>NaN\<close>, and \<open>0\<close> then.
\<close>

definition or_zero :: "js_number option \<Rightarrow> js_number" where
  "or_zero v = (case v of None \<Rightarrow> 0 | Some x \<Rightarrow> if x = 0 \<or> x = NaN then 0 else x)"

definition totalBalance :: "('a Account_scheme) list option \<Rightarrow> js_number" where
  "totalBalance accounts =
     or_zero (map_option (\<lambda>xs. foldl (\<lambda>sum account. sum + current_balance account) 0 xs) accounts)"

definition thisMonthIncome :: "('a TransactionSummary_scheme) option \<Rightarrow> js_number" where
  "thisMonthIncome summary = or_zero (map_option total_income summary)"

definition thisMonthExpenses :: "('a TransactionSummary_scheme) option \<Rightarrow> js_number" where
  "thisMonthExpenses summary = or_zero (map_option total_expenses summary)"

definition netIncome :: "('a TransactionSummary_scheme) option \<Rightarrow> js_number" where
  "netIncome summary = thisMonthIncome summary - thisMonthExpenses summary"

text \<open>
  For stating when the figures are exact: a rational that is a double, and a list of
  rationals whose running sums from an accumulator are all doubles.
\<close>

definition representable :: "rat \<Rightarrow> bool" where
  "representable x = (round_double x = Num x)"

fun exact_sums :: "rat \<Rightarrow> rat list \<Rightarrow> bool" where
  "exact_sums acc [] = True"
| "exact_sums acc (x # xs) = (representable (acc + x) \<and> exact_sums (acc + x) xs)"

text \<open>
  Fetched data: the balances of the example, and the balances 0.1 and 0.2, which arrive
  as the nearest doubles.
\<close>

definition example_balances :: "Account list" where
  "example_balances =
     [\<lparr>current_balance = Num 100\<rparr>, \<lparr>current_balance = Num (- 50)\<rparr>,
      \<lparr>current_balance = Num 2000\<rparr>]"

definition example_summary :: TransactionSummary where
  "example_summary = \<lparr>total_income = Num 3000, total_expenses = Num 1200\<rparr>"

definition tenths_balances :: "Account list" where
  "tenths_balances =
     [\<lparr>current_balance = round_double (1 / 10)\<rparr>, \<lparr>current_balance = round_double (2 / 10)\<rparr>]"

section \<open>Relational schema: the view \<open>user_account_summary\<close>\<close>

text \<open>
  Rows carry the columns the view and the foreign keys read. The account types are the ones of the \<open>ENUM\<close>, capitalised. A column without
  \<open>NOT NULL\<close> is an option (\<open>None\<close> is SQL's \<open>NULL\<close>).
\<close>

datatype account_type = Checking | Savings | Credit_Card | Investment | Loan

record users_row =
  u_id :: int
  u_email :: string
  u_first_name :: string
  u_last_name :: string
  u_is_active :: "bool option"

record accounts_row =
  a_id :: int
  a_user_id :: int
  a_account_type :: account_type
  a_current_balance :: "rat option"
  a_is_active :: "bool option"

record summary_row =
  user_id :: int
  email :: string
  first_name :: string
  last_name :: string
  total_accounts :: nat
  total_cash :: "rat option"
  total_credit_debt :: "rat option"
  total_investments :: "rat option"

text \<open>
  \<open>FROM users u LEFT JOIN accounts a ON u.id = a.user_id AND a.is_active = TRUE\<close>:
  a user without a matching account gives one row whose account columns are all \<open>NULL\<close>.
  A comparison with \<open>NULL\<close> is not true, so an account with \<open>is_active\<close> \<open>NULL\<close>
  does not match.
\<close>

definition join_on :: "users_row \<Rightarrow> accounts_row \<Rightarrow> bool" where
  "join_on u a = (u_id u = a_user_id a \<and> a_is_active a = Some True)"

definition join_user :: "accounts_row list \<Rightarrow> users_row \<Rightarrow> (users_row \<times> accounts_row option) list" where
  "join_user accts u =
     (let ms = filter (join_on u) accts
      in if ms = [] then [(u, None)] else map (\<lambda>a. (u, Some a)) ms)"

definition left_join :: "users_row list \<Rightarrow> accounts_row list \<Rightarrow> (users_row \<times> accounts_row option) list" where
  "left_join us accts = concat (map (join_user accts) us)"

text \<open>\<open>WHERE u.is_active = TRUE\<close>\<close>

definition where_active :: "(users_row \<times> accounts_row option) list \<Rightarrow> (users_row \<times> accounts_row option) list" where
  "where_active rows = filter (\<lambda>r. u_is_active (fst r) = Some True) rows"

text \<open>\<open>GROUP BY u.id, u.email, u.first_name, u.last_name\<close>\<close>

definition group_key :: "users_row \<times> accounts_row option \<Rightarrow> int \<times> string \<times> string \<times> string" where
  "group_key r = (u_id (fst r), u_email (fst r), u_first_name (fst r), u_last_name (fst r))"

text \<open>
  \<open>COUNT(a.id)\<close> counts the rows whose \<open>a.id\<close> is not \<open>NULL\<close>. \<open>SUM\<close> adds the values
  that are not \<open>NULL\<close> and is \<open>NULL\<close> when there is none.
\<close>

definition sql_count :: "'a option list \<Rightarrow> nat" where
  "sql_count vs = length (filter (\<lambda>v. v \<noteq> None) vs)"

definition sql_sum :: "rat option list \<Rightarrow> rat option" where
  "sql_sum vs =
     (let xs = concat (map (\<lambda>v. case v of None \<Rightarrow> [] | Some x \<Rightarrow> [x]) vs)
      in if xs = [] then None else Some (sum_list xs))"

text \<open>
  \<open>CASE WHEN a.account_type IN (...) THEN a.current_balance ELSE 0 END\<close>: on the
  all-\<open>NULL\<close> account of an unmatched user the condition is not true, which gives \<open>0\<close>.
\<close>

definition case_balance :: "account_type list \<Rightarrow> accounts_row option \<Rightarrow> rat option" where
  "case_balance types a =
     (case a of
        None \<Rightarrow> Some 0
      | Some acc \<Rightarrow> if a_account_type acc \<in> set types then a_current_balance acc else Some 0)"

definition summarise :: "int \<times> string \<times> string \<times> string \<Rightarrow> (users_row \<times> accounts_row option) list
                          \<Rightarrow> summary_row" where
  "summarise k grp =
     (case k of (uid, em, fname, lname) \<Rightarrow>
        \<lparr>user_id = uid, email = em, first_name = fname, last_name = lname,
         total_accounts = sql_count (map (\<lambda>r. map_option a_id (snd r)) grp),
         total_cash = sql_sum (map (\<lambda>r. case_balance [Checking, Savings] (snd r)) grp),
         total_credit_debt = sql_sum (map (\<lambda>r. case_balance [Credit_Card] (snd r)) grp),
         total_investments = sql_sum (map (\<lambda>r. case_balance [Investment] (snd r)) grp)\<rparr>)"

definition user_account_summary :: "users_row list \<Rightarrow> accounts_row list \<Rightarrow> summary_row list" where
  "user_account_summary us accts =
     (let rows = where_active (left_join us accts)
      in map (\<lambda>k. summarise k (filter (\<lambda>r. group_key r = k) rows))
           (remdups (map group_key rows)))"

text \<open>For stating what the view yields: a user's active accounts, and sums of their balances.\<close>

definition active_accounts_of :: "users_row \<Rightarrow> accounts_row list \<Rightarrow> accounts_row list" where
  "active_accounts_of u accts =
     filter (\<lambda>a. a_user_id a = u_id u \<and> a_is_active a = Some True) accts"

text \<open>
  A \<open>NULL\<close> balance adds nothing to a sum. The one case in which a total of the view is
  \<open>NULL\<close>: the user has active accounts, and each of them is of a summed type and has a
  \<open>NULL\<close> balance.
\<close>

definition only_null_balances :: "account_type list \<Rightarrow> accounts_row list \<Rightarrow> bool" where
  "only_null_balances types accts =
     (accts \<noteq> []
      \<and> list_all (\<lambda>a. a_account_type a \<in> set types \<and> a_current_balance a = None) accts)"

definition balance_sum :: "account_type list \<Rightarrow> accounts_row list \<Rightarrow> rat" where
  "balance_sum types accts =
     sum_list (map (\<lambda>a. case a_current_balance a of None \<Rightarrow> 0 | Some b \<Rightarrow> b)
                   (filter (\<lambda>a. a_account_type a \<in> set types) accts))"

text \<open>Example tables.\<close>

definition example_users :: "users_row list" where
  "example_users =
     [\<lparr>u_id = 1, u_email = ''ann@example.com'', u_first_name = ''Ann'', u_last_name = ''Lee'',
       u_is_active = Some True\<rparr>,
      \<lparr>u_id = 2, u_email = ''bob@example.com'', u_first_name = ''Bob'', u_last_name = ''Kim'',
       u_is_active = Some False\<rparr>,
      \<lparr>u_id = 3, u_email = ''cy@example.com'', u_first_name = ''Cy'', u_last_name = ''Ray'',
       u_is_active = Some True\<rparr>]"

definition example_accounts :: "accounts_row list" where
  "example_accounts =
     [\<lparr>a_id = 10, a_user_id = 1, a_account_type = Checking, a_current_balance = Some 100,
       a_is_active = Some True\<rparr>,
      \<lparr>a_id = 11, a_user_id = 1, a_account_type = Savings, a_current_balance = Some 50,
       a_is_active = Some True\<rparr>,
      \<lparr>a_id = 12, a_user_id = 1, a_account_type = Credit_Card, a_current_balance = Some 70,
       a_is_active = Some True\<rparr>,
      \<lparr>a_id = 13, a_user_id = 1, a_account_type = Investment, a_current_balance = Some 1000,
       a_is_active = Some False\<rparr>,
      \<lparr>a_id = 14, a_user_id = 1, a_account_type = Loan, a_current_balance = Some 900,
       a_is_active = Some True\<rparr>,
      \<lparr>a_id = 15, a_user_id = 2, a_account_type = Checking, a_current_balance = Some 5,
       a_is_active = Some True\<rparr>]"

text \<open>The same accounts and two more, with \<open>NULL\<close> balances.\<close>

definition accounts_with_nulls :: "accounts_row list" where
  "accounts_with_nulls =
     example_accounts @
     [\<lparr>a_id = 16, a_user_id = 1, a_account_type = Savings, a_current_balance = None,
       a_is_active = Some True\<rparr>,
      \<lparr>a_id = 17, a_user_id = 3, a_account_type = Investment, a_current_balance = None,
       a_is_active = Some True\<rparr>]"

text \<open>One active user whose only account is a checking account with a \<open>NULL\<close> balance.\<close>

definition null_balance_users :: "users_row list" where
  "null_balance_users =
     [\<lparr>u_id = 1, u_email = ''ann@example.com'', u_first_name = ''Ann'', u_last_name = ''Lee'',
       u_is_active = Some True\<rparr>]"

definition null_balance_accounts :: "accounts_row list" where
  "null_balance_accounts =
     [\<lparr>a_id = 10, a_user_id = 1, a_account_type = Checking, a_current_balance = None,
       a_is_active = Some True\<rparr>]"

section \<open>Relational schema: foreign keys and the deletion of a user\<close>

text \<open>
  The other tables, with their primary key and their foreign-key columns.
\<close>

record transactions_row =
  t_id :: int
  t_account_id :: int

record budgets_row =
  b_id :: int
  b_user_id :: int

record goals_row =
  g_id :: int
  g_user_id :: int

record chat_conversations_row =
  cc_id :: string
  cc_user_id :: int

record chat_messages_row =
  cm_id :: int
  cm_conversation_id :: string

record recurring_transactions_row =
  rt_id :: int
  rt_user_id :: int
  rt_account_id :: int

record bill_reminders_row =
  br_id :: int
  br_user_id :: int

record financial_reports_row =
  fr_id :: int
  fr_user_id :: int

record audit_logs_row =
  al_id :: int
  al_user_id :: "int option"

record user_sessions_row =
  us_id :: string
  us_user_id :: int

record database =
  tbl_users :: "users_row list"
  tbl_accounts :: "accounts_row list"
  tbl_transactions :: "transactions_row list"
  tbl_budgets :: "budgets_row list"
  tbl_goals :: "goals_row list"
  tbl_chat_conversations :: "chat_conversations_row list"
  tbl_chat_messages :: "chat_messages_row list"
  tbl_recurring_transactions :: "recurring_transactions_row list"
  tbl_bill_reminders :: "bill_reminders_row list"
  tbl_financial_reports :: "financial_reports_row list"
  tbl_audit_logs :: "audit_logs_row list"
  tbl_user_sessions :: "user_sessions_row list"

text \<open>
  The two referential actions of the schema, for a list of deleted parent keys:
  \<open>ON DELETE CASCADE\<close> deletes the child rows that reference one of them,
  \<open>ON DELETE SET NULL\<close> keeps the child rows and sets the reference to \<open>NULL\<close>.
\<close>

definition on_delete_cascade :: "('r \<Rightarrow> 'k) \<Rightarrow> 'k list \<Rightarrow> 'r list \<Rightarrow> 'r list" where
  "on_delete_cascade fk deleted rows = filter (\<lambda>r. fk r \<notin> set deleted) rows"

definition on_delete_set_null :: "('r \<Rightarrow> 'k option) \<Rightarrow> ('r \<Rightarrow> 'r) \<Rightarrow> 'k list \<Rightarrow> 'r list \<Rightarrow> 'r list" where
  "on_delete_set_null fk set_null deleted rows =
     map (\<lambda>r. case fk r of None \<Rightarrow> r | Some k \<Rightarrow> if k \<in> set deleted then set_null r else r) rows"

text \<open>The keys of the child rows that a cascade deletes; they cascade further.\<close>

definition cascaded_keys :: "('r \<Rightarrow> 'k) \<Rightarrow> ('r \<Rightarrow> 'p) \<Rightarrow> 'k list \<Rightarrow> 'r list \<Rightarrow> 'p list" where
  "cascaded_keys fk pk deleted rows = map pk (filter (\<lambda>r. fk r \<in> set deleted) rows)"

text \<open>
  \<open>DELETE FROM users WHERE id = uid\<close>, with one line for each \<open>FOREIGN KEY\<close> clause of
  the schema. \<open>recurring_transactions\<close> references both \<open>users\<close> and \<open>accounts\<close>.
\<close>

definition delete_user :: "int \<Rightarrow> database \<Rightarrow> database" where
  "delete_user uid db =
     (let del_users = map u_id (filter (\<lambda>u. u_id u = uid) (tbl_users db));
          del_accounts = cascaded_keys a_user_id a_id del_users (tbl_accounts db);
          del_conversations = cascaded_keys cc_user_id cc_id del_users (tbl_chat_conversations db)
      in \<lparr>tbl_users = filter (\<lambda>u. u_id u \<noteq> uid) (tbl_users db),
          tbl_accounts = on_delete_cascade a_user_id del_users (tbl_accounts db),
          tbl_transactions = on_delete_cascade t_account_id del_accounts (tbl_transactions db),
          tbl_budgets = on_delete_cascade b_user_id del_users (tbl_budgets db),
          tbl_goals = on_delete_cascade g_user_id del_users (tbl_goals db),
          tbl_chat_conversations =
            on_delete_cascade cc_user_id del_users (tbl_chat_conversations db),
          tbl_chat_messages =
            on_delete_cascade cm_conversation_id del_conversations (tbl_chat_messages db),
          tbl_recurring_transactions =
            on_delete_cascade rt_account_id del_accounts
              (on_delete_cascade rt_user_id del_users (tbl_recurring_transactions db)),
          tbl_bill_reminders = on_delete_cascade br_user_id del_users (tbl_bill_reminders db),
          tbl_financial_reports =
            on_delete_cascade fr_user_id del_users (tbl_financial_reports db),
          tbl_audit_logs =
            on_delete_set_null al_user_id (\<lambda>l. l\<lparr>al_user_id := None\<rparr>) del_users
              (tbl_audit_logs db),
          tbl_user_sessions = on_delete_cascade us_user_id del_users (tbl_user_sessions db)\<rparr>)"

text \<open>For stating what a deletion removes: a user's accounts and conversations.\<close>

definition accounts_of :: "int \<Rightarrow> database \<Rightarrow> accounts_row list" where
  "accounts_of uid db = filter (\<lambda>a. a_user_id a = uid) (tbl_accounts db)"

definition conversations_of :: "int \<Rightarrow> database \<Rightarrow> chat_conversations_row list" where
  "conversations_of uid db = filter (\<lambda>c. cc_user_id c = uid) (tbl_chat_conversations db)"

definition null_user_reference :: "int \<Rightarrow> audit_logs_row \<Rightarrow> audit_logs_row" where
  "null_user_reference uid l = (if al_user_id l = Some uid then l\<lparr>al_user_id := None\<rparr> else l)"

text \<open>An example database: user 1 owns rows in every table, user 2 owns some.\<close>

definition example_db :: database where
  "example_db =
     \<lparr>tbl_users = example_users,
      tbl_accounts = example_accounts,
      tbl_transactions = [\<lparr>t_id = 100, t_account_id = 10\<rparr>, \<lparr>t_id = 101, t_account_id = 15\<rparr>,
                          \<lparr>t_id = 102, t_account_id = 13\<rparr>],
      tbl_budgets = [\<lparr>b_id = 1, b_user_id = 1\<rparr>, \<lparr>b_id = 2, b_user_id = 2\<rparr>],
      tbl_goals = [\<lparr>g_id = 1, g_user_id = 1\<rparr>],
      tbl_chat_conversations = [\<lparr>cc_id = ''c-1'', cc_user_id = 1\<rparr>, \<lparr>cc_id = ''c-2'', cc_user_id = 2\<rparr>],
      tbl_chat_messages = [\<lparr>cm_id = 1, cm_conversation_id = ''c-1''\<rparr>,
                           \<lparr>cm_id = 2, cm_conversation_id = ''c-2''\<rparr>,
                           \<lparr>cm_id = 3, cm_conversation_id = ''c-1''\<rparr>],
      tbl_recurring_transactions = [\<lparr>rt_id = 1, rt_user_id = 1, rt_account_id = 10\<rparr>,
                                    \<lparr>rt_id = 2, rt_user_id = 2, rt_account_id = 15\<rparr>],
      tbl_bill_reminders = [\<lparr>br_id = 1, br_user_id = 1\<rparr>],
      tbl_financial_reports = [\<lparr>fr_id = 1, fr_user_id = 1\<rparr>, \<lparr>fr_id = 2, fr_user_id = 3\<rparr>],
      tbl_audit_logs = [\<lparr>al_id = 1, al_user_id = Some 1\<rparr>, \<lparr>al_id = 2, al_user_id = Some 2\<rparr>,
                        \<lparr>al_id = 3, al_user_id = None\<rparr>, \<lparr>al_id = 4, al_user_id = Some 1\<rparr>],
      tbl_user_sessions = [\<lparr>us_id = ''s-1'', us_user_id = 1\<rparr>, \<lparr>us_id = ''s-2'', us_user_id = 2\<rparr>]\<rparr>"

section \<open>Operational scripts: running a script under \<open>set -e\<close>\<close>

text \<open>
  Both scripts start with \<open>set -e\<close>. What the machine answers is a parameter: the exit
  status of each external command (named by a label that is the command as written, in
  short), what a command substitution captures, which files and directories exist, the
  lists a loop runs over, the variables set from outside, the exit status of each
  successive run of a command that a loop polls, and, for each directory the test script
  enters, the folder that the relative path \<open>$TEST_RESULTS_DIR\<close> names from there, if
  any. \<open>echo\<close> to the terminal, \<open>sleep\<close>, \<open>date\<close>, \<open>export\<close> and the redirections
  that write the report files under \<open>../$TEST_RESULTS_DIR\<close> are taken to succeed.
\<close>

record shell_env =
  sh_status :: "string \<Rightarrow> nat"
  sh_output :: "string \<Rightarrow> string"
  sh_is_file :: "string \<Rightarrow> bool"
  sh_is_dir :: "string \<Rightarrow> bool"
  sh_list :: "string \<Rightarrow> string list"
  sh_var :: "string \<Rightarrow> string"
  sh_poll :: "string \<Rightarrow> nat \<Rightarrow> nat"
  sh_results_dir :: "string \<Rightarrow> string option"

text \<open>A script is still running in a state, or it has exited with a status.\<close>

datatype 'st run = Running 'st | Exited nat 'st

fun run_all :: "('st \<Rightarrow> 'st run) list \<Rightarrow> 'st \<Rightarrow> 'st run" where
  "run_all [] s = Running s"
| "run_all (f # fs) s = (case f s of Running s' \<Rightarrow> run_all fs s' | Exited n s' \<Rightarrow> Exited n s')"

text \<open>
  A simple command outside a condition ends the script with its status when that is not
  0 (\<open>set -e\<close>); this includes an assignment \<open>x=$(command)\<close>. The command of an
  \<open>if\<close> and the left side of \<open>||\<close> never end the script.
\<close>

definition cmd :: "shell_env \<Rightarrow> string \<Rightarrow> 'st \<Rightarrow> 'st run" where
  "cmd env label s = (if sh_status env label = 0 then Running s else Exited (sh_status env label) s)"

definition if_cmd :: "shell_env \<Rightarrow> string \<Rightarrow> ('st \<Rightarrow> 'st run) \<Rightarrow> ('st \<Rightarrow> 'st run) \<Rightarrow> 'st \<Rightarrow> 'st run" where
  "if_cmd env label then_part else_part s =
     (if sh_status env label = 0 then then_part s else else_part s)"

definition if_true :: "bool \<Rightarrow> ('st \<Rightarrow> 'st run) \<Rightarrow> 'st \<Rightarrow> 'st run" where
  "if_true b then_part s = (if b then then_part s else Running s)"

definition exit_with :: "nat \<Rightarrow> 'st \<Rightarrow> 'st run" where
  "exit_with n s = Exited n s"

text \<open>
  The exit status of a script that runs to its last line is that of its last command; in
  both scripts that is an \<open>echo\<close> or an \<open>if\<close> whose branches end in status 0.
\<close>

definition exit_status :: "'st run \<Rightarrow> nat" where
  "exit_status r = (case r of Running s \<Rightarrow> 0 | Exited n s \<Rightarrow> n)"

definition final_state :: "'st run \<Rightarrow> 'st" where
  "final_state r = (case r of Running s \<Rightarrow> s | Exited n s \<Rightarrow> s)"

text \<open>\<open>grep\<close> with a fixed string: the lines that contain it.\<close>

fun contains :: "string \<Rightarrow> string \<Rightarrow> bool" where
  "contains pat [] = (pat = [])"
| "contains pat (c # cs) = (prefix pat (c # cs) \<or> contains pat cs)"

section \<open>The test script\<close>

text \<open>
  The state is the current directory (\<open>''.''\<close> is the directory the script starts in),
  the file \<open>test_results.txt\<close> of each results folder, one line for each test recorded
  there and \<open>None\<close> while the file does not exist, and the counters. The \<open>print_*\<close>
  calls write to the terminal only and are left out.
\<close>

record test_state =
  cwd :: string
  results_files :: "string \<Rightarrow> string list option"
  BACKEND_TESTS_PASSED :: nat
  FRONTEND_TESTS_PASSED :: nat
  INTEGRATION_TESTS_PASSED :: nat
  TOTAL_TESTS :: nat

definition test_start :: test_state where
  "test_start = \<lparr>cwd = ''.'', results_files = (\<lambda>folder. None), BACKEND_TESTS_PASSED = 0,
                  FRONTEND_TESTS_PASSED = 0, INTEGRATION_TESTS_PASSED = 0, TOTAL_TESTS = 0\<rparr>"

text \<open>
  \<open>TEST_RESULTS_DIR="test-results/$(date +%Y%m%d_%H%M%S)"\<close> is a relative path. From
  the starting directory it names the folder that \<open>mkdir -p\<close> has just made, called
  \<open>''test-results''\<close> here; from another directory it names what the machine says:
  that same folder (through a link), another folder, or nothing.
\<close>

definition results_folder :: "shell_env \<Rightarrow> string \<Rightarrow> string option" where
  "results_folder env dir = (if dir = ''.'' then Some ''test-results'' else sh_results_dir env dir)"

definition results_txt_in :: "string \<Rightarrow> test_state \<Rightarrow> string list" where
  "results_txt_in folder s = (case results_files s folder of None \<Rightarrow> [] | Some ls \<Rightarrow> ls)"

text \<open>The file \<open>test_results.txt\<close> of the folder made at the start.\<close>

definition test_results_txt :: "test_state \<Rightarrow> string list" where
  "test_results_txt s = results_txt_in ''test-results'' s"

text \<open>
  \<open>$TEST_RESULTS_DIR/test_results.txt\<close> as seen from the current directory: its lines,
  or \<open>None\<close> when there is no such file.
\<close>

definition results_here :: "shell_env \<Rightarrow> test_state \<Rightarrow> string list option" where
  "results_here env s =
     (case results_folder env (cwd s) of None \<Rightarrow> None | Some folder \<Rightarrow> results_files s folder)"

text \<open>
  \<open>cd\<close> outside a condition. The script only enters a directory of the starting
  directory and comes back with \<open>cd ..\<close>.
\<close>

definition chdir :: "shell_env \<Rightarrow> string \<Rightarrow> test_state \<Rightarrow> test_state run" where
  "chdir env target s =
     (if sh_status env (''cd '' @ target) = 0
      then Running (s\<lparr>cwd := (if target = ''..'' then ''.'' else target)\<rparr>)
      else Exited (sh_status env (''cd '' @ target)) s)"

definition count_passed :: "string \<Rightarrow> test_state \<Rightarrow> test_state" where
  "count_passed test_name s =
     (if contains ''backend'' test_name then s\<lparr>BACKEND_TESTS_PASSED := BACKEND_TESTS_PASSED s + 1\<rparr>
      else if contains ''frontend'' test_name
        then s\<lparr>FRONTEND_TESTS_PASSED := FRONTEND_TESTS_PASSED s + 1\<rparr>
      else if contains ''integration'' test_name
        then s\<lparr>INTEGRATION_TESTS_PASSED := INTEGRATION_TESTS_PASSED s + 1\<rparr>
      else s)"

text \<open>
  \<open>record_test\<close> appends its line with \<open>>> "$TEST_RESULTS_DIR/test_results.txt"\<close>, a
  path relative to the current directory. Every call stands in a branch of an \<open>if\<close>,
  not in its condition: when the folder is not there the redirection fails and \<open>set -e\<close>
  ends the script with status 1.
\<close>

definition record_test ::
  "shell_env \<Rightarrow> string \<Rightarrow> string \<Rightarrow> string \<Rightarrow> test_state \<Rightarrow> test_state run" where
  "record_test env test_name result details s =
     (case results_folder env (cwd s) of
        None \<Rightarrow> Exited 1 s
      | Some folder \<Rightarrow>
          (let s1 = s\<lparr>results_files := (results_files s)
                        (folder \<mapsto> results_txt_in folder s
                                    @ [test_name @ '': '' @ result @ '' - '' @ details])\<rparr>;
               s2 = (if result = ''PASS'' then count_passed test_name s1 else s1)
           in Running (s2\<lparr>TOTAL_TESTS := TOTAL_TESTS s2 + 1\<rparr>)))"

definition backend_tests :: "shell_env \<Rightarrow> test_state \<Rightarrow> test_state run" where
  "backend_tests env = run_all
     [chdir env ''backend'',
      if_true (\<not> sh_is_dir env ''venv'') (cmd env ''python3 -m venv venv''),
      cmd env ''source venv/bin/activate'',
      cmd env ''pip install pytest pytest-asyncio pytest-cov httpx'',
      if_cmd env ''python -m pytest tests/unit/''
        (record_test env ''backend_unit_tests'' ''PASS'' ''All unit tests passed'')
        (record_test env ''backend_unit_tests'' ''FAIL'' ''Some unit tests failed''),
      if_cmd env ''python -m pytest tests/integration/''
        (record_test env ''backend_integration_tests'' ''PASS'' ''All integration tests passed'')
        (record_test env ''backend_integration_tests'' ''FAIL'' ''Some integration tests failed''),
      if_cmd env ''command -v bandit''
        (if_cmd env ''bandit -r app/''
           (record_test env ''backend_security'' ''PASS'' ''No security issues found'')
           (record_test env ''backend_security'' ''FAIL'' ''Security issues found''))
        (record_test env ''backend_security'' ''SKIP'' ''Bandit not installed''),
      if_cmd env ''command -v flake8''
        (if_cmd env ''flake8 app/''
           (record_test env ''backend_code_quality'' ''PASS'' ''Code quality checks passed'')
           (record_test env ''backend_code_quality'' ''FAIL'' ''Code quality issues found''))
        Running,
      if_cmd env ''command -v mypy''
        (if_cmd env ''mypy app/''
           (record_test env ''backend_type_checking'' ''PASS'' ''Type checking passed'')
           (record_test env ''backend_type_checking'' ''FAIL'' ''Type checking issues found''))
        Running,
      cmd env ''deactivate'',
      chdir env ''..'']"

definition frontend_tests :: "shell_env \<Rightarrow> test_state \<Rightarrow> test_state run" where
  "frontend_tests env = run_all
     [chdir env ''frontend-web'',
      if_true (\<not> sh_is_dir env ''node_modules'') (cmd env ''npm ci''),
      if_cmd env ''npm test -- --coverage''
        (record_test env ''frontend_unit_tests'' ''PASS'' ''All frontend unit tests passed'')
        (record_test env ''frontend_unit_tests'' ''FAIL'' ''Some frontend unit tests failed''),
      if_cmd env ''npm run lint''
        (record_test env ''frontend_linting'' ''PASS'' ''No linting errors'')
        (record_test env ''frontend_linting'' ''FAIL'' ''Linting errors found''),
      if_cmd env ''npx tsc --noEmit''
        (record_test env ''frontend_type_checking'' ''PASS'' ''No type errors'')
        (record_test env ''frontend_type_checking'' ''FAIL'' ''Type errors found''),
      if_cmd env ''npm run build''
        (record_test env ''frontend_build'' ''PASS'' ''Production build successful'')
        (record_test env ''frontend_build'' ''FAIL'' ''Production build failed''),
      if_true (sh_is_dir env ''dist'')
        (run_all
           [cmd env ''du -sh dist | cut -f1'',
            record_test env ''frontend_bundle_size'' ''INFO''
              (''Bundle size: '' @ sh_output env ''du -sh dist | cut -f1'')]),
      chdir env ''..'']"

definition database_tests :: "shell_env \<Rightarrow> test_state \<Rightarrow> test_state run" where
  "database_tests env =
     if_cmd env ''command -v docker''
       (run_all
          [cmd env ''docker run -d --name test-mysql'',
           if_cmd env ''docker exec test-mysql mysqladmin ping''
             (record_test env ''database_connection'' ''PASS'' ''Database connection successful'')
             (record_test env ''database_connection'' ''FAIL'' ''Database connection failed''),
           if_cmd env ''docker exec -i test-mysql mysql < database/schema.sql''
             (record_test env ''database_schema'' ''PASS'' ''Schema creation successful'')
             (record_test env ''database_schema'' ''FAIL'' ''Schema creation failed''),
           cmd env ''docker stop test-mysql'',
           cmd env ''docker rm test-mysql''])
       Running"

definition integration_tests :: "shell_env \<Rightarrow> test_state \<Rightarrow> test_state run" where
  "integration_tests env =
     if_cmd env ''command -v docker-compose''
       (run_all
          [cmd env ''docker-compose up -d'',
           cmd env ''curl http://localhost:8000/health'',
           if sh_output env ''curl http://localhost:8000/health'' = ''200''
             then record_test env ''integration_api_health'' ''PASS'' ''Health endpoint responsive''
             else record_test env ''integration_api_health'' ''FAIL'' ''Health endpoint not responsive'',
           cmd env ''curl -X POST http://localhost:8000/api/v1/auth/register'',
           if sh_output env ''curl -X POST http://localhost:8000/api/v1/auth/register'' = ''201''
             then record_test env ''integration_user_registration'' ''PASS'' ''User registration successful''
             else record_test env ''integration_user_registration'' ''FAIL'' ''User registration failed'',
           cmd env ''curl http://localhost:3000'',
           if sh_output env ''curl http://localhost:3000'' = ''200''
             then record_test env ''integration_frontend_access'' ''PASS'' ''Frontend accessible''
             else record_test env ''integration_frontend_access'' ''FAIL'' ''Frontend not accessible'',
           cmd env ''curl -w time_total http://localhost:8000/health'',
           if_cmd env ''api_response_time < 1.0''
             (record_test env ''performance_api_response'' ''PASS''
                (''API response time: '' @ sh_output env ''curl -w time_total http://localhost:8000/health''
                  @ ''s''))
             (record_test env ''performance_api_response'' ''FAIL''
                (''API response time: '' @ sh_output env ''curl -w time_total http://localhost:8000/health''
                  @ ''s (>1s)'')),
           if_cmd env ''command -v ab''
             (run_all
                [cmd env ''ab -n 100 -c 10 http://localhost:8000/health'',
                 record_test env ''performance_load_test'' ''PASS''
                   ''Load test completed (100 requests, 10 concurrent)''])
             Running,
           cmd env ''docker-compose down'',
           cmd env ''docker-compose rm -f''])
       Running"

text \<open>
  End-to-end tests. \<open>npx playwright test > ... 2>&1\<close> is a simple command on a line of
  its own, and \<open>if [ $? -eq 0 ]\<close> comes on the next line: when the command fails,
  \<open>set -e\<close> has ended the script before that test is reached.
\<close>

definition e2e_tests :: "shell_env \<Rightarrow> test_state \<Rightarrow> test_state run" where
  "e2e_tests env =
     if_true (sh_is_file env ''frontend-web/playwright.config.js''
           \<or> sh_is_file env ''frontend-web/cypress.json'')
       (run_all
          [chdir env ''frontend-web'',
           if_cmd env ''command -v npx playwright''
             (run_all
                [cmd env ''npx playwright test'',
                 if sh_status env ''npx playwright test'' = 0
                   then record_test env ''e2e_tests'' ''PASS'' ''E2E tests passed''
                   else record_test env ''e2e_tests'' ''FAIL'' ''E2E tests failed''])
             (if_cmd env ''command -v npx cypress''
                (run_all
                   [cmd env ''npx cypress run'',
                    if sh_status env ''npx cypress run'' = 0
                      then record_test env ''e2e_tests'' ''PASS'' ''E2E tests passed''
                      else record_test env ''e2e_tests'' ''FAIL'' ''E2E tests failed''])
                Running),
           chdir env ''..''])"

definition mobile_tests :: "shell_env \<Rightarrow> test_state \<Rightarrow> test_state run" where
  "mobile_tests env =
     if_true (sh_is_dir env ''frontend-mobile'' \<and> sh_is_file env ''frontend-mobile/package.json'')
       (run_all
          [chdir env ''frontend-mobile'',
           if_cmd env ''npm test -- --watchAll=false''
             (record_test env ''mobile_tests'' ''PASS'' ''Mobile tests passed'')
             (record_test env ''mobile_tests'' ''FAIL'' ''Mobile tests failed''),
           chdir env ''..''])"

text \<open>
  The HTML report is filled by \<open>while ... read ...; do ... done < "$TEST_RESULTS_DIR/test_results.txt"\<close>:
  when that file does not exist the redirection fails and \<open>set -e\<close> ends the script
  with status 1. The files of the report themselves are not part of the state.
\<close>

definition generate_report :: "shell_env \<Rightarrow> test_state \<Rightarrow> test_state run" where
  "generate_report env s = (if results_here env s = None then Exited 1 s else Running s)"

text \<open>
  \<open>grep "FAIL" "$TEST_RESULTS_DIR/test_results.txt" | grep -E "(backend_unit|integration_api|database)" | wc -l\<close>
\<close>

definition critical_failures :: "string list \<Rightarrow> nat" where
  "critical_failures ls =
     length (filter (\<lambda>l. contains ''backend_unit'' l \<or> contains ''integration_api'' l
                          \<or> contains ''database'' l)
               (filter (contains ''FAIL'') ls))"

definition critical_check :: "shell_env \<Rightarrow> test_state \<Rightarrow> test_state run" where
  "critical_check env s =
     (if critical_failures (case results_here env s of None \<Rightarrow> [] | Some ls \<Rightarrow> ls) > 0
      then exit_with 1 s else Running s)"

definition test_sh :: "shell_env \<Rightarrow> test_state run" where
  "test_sh env = run_all
     [cmd env ''mkdir -p test-results'',
      backend_tests env,
      frontend_tests env,
      database_tests env,
      integration_tests env,
      e2e_tests env,
      mobile_tests env,
      generate_report env,
      critical_check env] test_start"


text \<open>
  For stating what the test script does as a whole: the labels of its commands outside a
  condition, which \<open>set -e\<close> makes fatal; the critical tests that failed, read off the
  machine; a captured output that is plain, so that the line it is written into can
  match neither \<open>FAIL\<close> nor a critical test name through it; the results folder
  being linked into the three directories the script enters; and a step that, started
  in directory \<open>d\<close>, keeps the script running, ends in directory \<open>d'\<close>, adds \<open>n\<close> to
  the count of the final check and, if \<open>w\<close>, has written to the results file.
\<close>

definition test_sh_unguarded :: "string list" where
  "test_sh_unguarded =
     [''mkdir -p test-results'', ''cd backend'', ''python3 -m venv venv'',
      ''source venv/bin/activate'', ''pip install pytest pytest-asyncio pytest-cov httpx'',
      ''deactivate'', ''cd ..'', ''cd frontend-web'', ''npm ci'', ''du -sh dist | cut -f1'',
      ''docker run -d --name test-mysql'', ''docker stop test-mysql'', ''docker rm test-mysql'',
      ''docker-compose up -d'', ''curl http://localhost:8000/health'',
      ''curl -X POST http://localhost:8000/api/v1/auth/register'', ''curl http://localhost:3000'',
      ''curl -w time_total http://localhost:8000/health'',
      ''ab -n 100 -c 10 http://localhost:8000/health'', ''docker-compose down'',
      ''docker-compose rm -f'', ''npx playwright test'', ''npx cypress run'',
      ''cd frontend-mobile'']"

fun all_succeed :: "shell_env \<Rightarrow> string list \<Rightarrow> bool" where
  "all_succeed env [] = True"
| "all_succeed env (l # ls) = (sh_status env l = 0 \<and> all_succeed env ls)"

definition critical_test_failed :: "shell_env \<Rightarrow> bool" where
  "critical_test_failed env =
     (sh_status env ''python -m pytest tests/unit/'' \<noteq> 0
      \<or> (sh_status env ''command -v docker'' = 0
           \<and> (sh_status env ''docker exec test-mysql mysqladmin ping'' \<noteq> 0
                \<or> sh_status env ''docker exec -i test-mysql mysql < database/schema.sql'' \<noteq> 0))
      \<or> (sh_status env ''command -v docker-compose'' = 0
           \<and> sh_output env ''curl http://localhost:8000/health'' \<noteq> ''200''))"





section \<open>The deploy script\<close>

text \<open>
  The state is what the script has printed through its \<open>print_*\<close> functions (without
  the colour codes), the lines of the deployment report and of \<open>deployments.log\<close> that
  hold a health result, and the notifications posted to the webhook. The plain \<open>echo\<close>
  lines of the banner and the other lines of the report (deployment details, running
  services, resource usage, exposed ports, next steps, rollback command) are left out.
\<close>

record deploy_state =
  console :: "string list"
  deployment_report :: "string list"
  deployments_log :: "string list"
  webhook_posts :: "string list"


definition print_status :: "string \<Rightarrow> deploy_state \<Rightarrow> deploy_state run" where
  "print_status msg s = Running (s\<lparr>console := console s @ [''[INFO] '' @ msg]\<rparr>)"

definition print_success :: "string \<Rightarrow> deploy_state \<Rightarrow> deploy_state run" where
  "print_success msg s = Running (s\<lparr>console := console s @ [''[SUCCESS] '' @ msg]\<rparr>)"


definition print_error :: "string \<Rightarrow> deploy_state \<Rightarrow> deploy_state run" where
  "print_error msg s = Running (s\<lparr>console := console s @ [''[ERROR] '' @ msg]\<rparr>)"






text \<open>
  \<open>$(curl -s -o /dev/null -w "%{http_code}" URL || echo "000")\<close> captures what \<open>curl\<close>
  writes and, when \<open>curl\<close> fails, the \<open>000\<close> of the \<open>echo\<close> after it. The
  assignment never fails.
\<close>

definition http_code_or_000 :: "shell_env \<Rightarrow> string \<Rightarrow> string" where
  "http_code_or_000 env label =
     sh_output env label @ (if sh_status env label = 0 then [] else ''000'')"

definition backend_health :: "shell_env \<Rightarrow> string" where
  "backend_health env = http_code_or_000 env ''curl http://localhost:8000/health''"

definition frontend_health :: "shell_env \<Rightarrow> string" where
  "frontend_health env = http_code_or_000 env ''curl http://localhost:3000''"


definition response_time :: "shell_env \<Rightarrow> string" where
  "response_time env = sh_output env ''curl -w time_total http://localhost:8000/health''"

definition health_checks :: "shell_env \<Rightarrow> deploy_state \<Rightarrow> deploy_state run" where
  "health_checks env = run_all
     [print_status ''Running health checks...'',
      if backend_health env = ''200''
        then print_success ''Backend health check passed''
        else print_error (''Backend health check failed (HTTP '' @ backend_health env @ '')''),
      if frontend_health env = ''200''
        then print_success ''Frontend health check passed''
        else print_error (''Frontend health check failed (HTTP '' @ frontend_health env @ '')''),
      if_cmd env ''mysqladmin ping (health check)''
        (print_success ''Database health check passed'')
        (print_error ''Database health check failed'')]"











text \<open>
  For stating what the deploy script does as a whole: the line that reports success, the
  lines of the report, and a step that is orderly: it keeps what has been printed and
  logged, leaves the report alone or writes it with the health results, does not print
  the success line, and ends the script with a status other than 0 only.
\<close>

definition success_line :: string where
  "success_line = ''[SUCCESS] Deployment completed successfully!''"

definition report_lines :: "shell_env \<Rightarrow> string list" where
  "report_lines env =
     [''Health Check Results:'',
      ''- Backend API: '' @ backend_health env,
      ''- Frontend Web: '' @ frontend_health env,
      ''- Database: '' @ (if sh_status env ''mysqladmin ping (report)'' = 0 then ''OK'' else ''FAIL''),
      ''Performance:'',
      ''- Backend Response Time: '' @ response_time env @ ''s'']"

definition orderly :: "shell_env \<Rightarrow> (deploy_state \<Rightarrow> deploy_state run) \<Rightarrow> bool" where
  "orderly env f =
     (\<forall>s. case f s of
        Running s' \<Rightarrow>
          set (console s) \<subseteq> set (console s')
          \<and> set (deployments_log s) \<subseteq> set (deployments_log s')
          \<and> (deployment_report s' = deployment_report s \<or> deployment_report s' = report_lines env)
          \<and> (success_line \<in> set (console s') \<longrightarrow> success_line \<in> set (console s))
      | Exited n s' \<Rightarrow>
          n \<noteq> 0 \<and> (success_line \<in> set (console s') \<longrightarrow> success_line \<in> set (console s)))"

text \<open>
  A machine on which every command succeeds and every probe answers as expected, with
  Playwright configured, and on which \<open>test-results\<close> in each directory is a link to
  \<open>test-results\<close> of the starting directory; the same machine with a failing
  end-to-end test, or with a failing mobile test; and the same machine without the links,
  as after a fresh checkout.
\<close>

definition all_fine :: shell_env where
  "all_fine =
     \<lparr>sh_status = (\<lambda>label. 0),
      sh_output = (\<lambda>label.
         if label = ''curl http://localhost:8000/health'' then ''200''
         else if label = ''curl -X POST http://localhost:8000/api/v1/auth/register'' then ''201''
         else if label = ''curl http://localhost:3000'' then ''200''
         else if label = ''curl -w time_total http://localhost:8000/health'' then ''0.012''
         else if label = ''du -sh dist | cut -f1'' then ''1.2M''
         else if label = ''date +%Y%m%d_%H%M%S'' then ''20250712_060530''
         else if label = ''docker-compose ps | grep | wc -l'' then ''2''
         else []),
      sh_is_file = (\<lambda>path. True),
      sh_is_dir = (\<lambda>path. True),
      sh_list = (\<lambda>name. []),
      sh_var = (\<lambda>name. []),
      sh_poll = (\<lambda>label n. 0),
      sh_results_dir = (\<lambda>dir. Some ''test-results'')\<rparr>"

definition e2e_fails :: shell_env where
  "e2e_fails = all_fine\<lparr>sh_status := (sh_status all_fine)(''npx playwright test'' := 1)\<rparr>"

definition mobile_fails :: shell_env where
  "mobile_fails = all_fine\<lparr>sh_status := (sh_status all_fine)(''npm test -- --watchAll=false'' := 1)\<rparr>"

definition fresh_checkout :: shell_env where
  "fresh_checkout = all_fine\<lparr>sh_results_dir := (\<lambda>dir. None)\<rparr>"



definition unit_tests_fail :: shell_env where
  "unit_tests_fail =
     all_fine\<lparr>sh_status := (sh_status all_fine)(''python -m pytest tests/unit/'' := 1)\<rparr>"

text \<open>
  The backend unit tests fail on a machine where each directory has a results folder of
  its own under the relative path.
\<close>

definition own_folders :: shell_env where
  "own_folders = unit_tests_fail\<lparr>sh_results_dir := (\<lambda>dir. Some (dir @ ''/test-results''))\<rparr>"


section \<open>Properties of the authentication context\<close>

text \<open>Every action preserves: an authenticated state carries a user.\<close>

lemma authReducer_inv:
  "isAuthenticated s \<longrightarrow> user s \<noteq> None \<Longrightarrow>
   isAuthenticated (authReducer s a) \<longrightarrow> user (authReducer s a) \<noteq> None"
  by (cases a) simp_all

lemma reachable_inv:
  "isAuthenticated s \<longrightarrow> user s \<noteq> None \<Longrightarrow>
   isAuthenticated (foldl authReducer s acts) \<longrightarrow> user (foldl authReducer s acts) \<noteq> None"
proof (induction acts arbitrary: s)
  case Nil
  then show ?case by simp
next
  case (Cons a acts)
  have "isAuthenticated (authReducer s a) \<longrightarrow> user (authReducer s a) \<noteq> None"
    using Cons.prems by (rule authReducer_inv)
  then show ?case using Cons.IH by simp
qed

text \<open>
  C1, as stated, fails for a stored access token that is the empty string: the condition
  \<open>if (token)\<close> is false for it, \<open>getCurrentUser\<close> is not called and neither token is
  removed, although the token is stored and the service would reject it.
\<close>

theorem initAuth_empty_token_counterexample:
  "getItem ''accessToken'' (localStorage client_empty_token) = Some []
   \<and> svc_getCurrentUser svc_invalid (localStorage client_empty_token) = Inl (Error ''Unauthorized'')
   \<and> getItem ''accessToken'' (localStorage (initAuth svc_invalid client_empty_token)) = Some []
   \<and> getItem ''refreshToken'' (localStorage (initAuth svc_invalid client_empty_token)) = Some ''r1''"
  by (simp add: client_empty_token_def svc_invalid_def initAuth_def getItem_def truthy_def
      dispatch_def)

text \<open>
  C1 (amended): no state reached from \<open>initialState\<close> by any sequence of actions has
  \<open>isAuthenticated\<close> set with \<open>user\<close> null; the states produced by \<open>LOGIN_SUCCESS\<close>
  and \<open>LOGIN_FAILURE\<close> never have \<open>isLoading\<close> set; and the startup initialisation
  with a stored, non-empty access token that \<open>getCurrentUser\<close> rejects ends
  unauthenticated, not loading, with \<open>accessToken\<close> and \<open>refreshToken\<close> removed from
  storage.
\<close>

theorem auth_invariant_and_startup:
  assumes "getItem ''accessToken'' (localStorage c) = Some t" and "t \<noteq> []"
    and "svc_getCurrentUser svc (localStorage c) = Inl e"
    and "state c = initialState"
  shows "(isAuthenticated (foldl authReducer initialState acts)
            \<longrightarrow> user (foldl authReducer initialState acts) \<noteq> None)
       \<and> \<not> isLoading (authReducer s (LOGIN_SUCCESS u))
       \<and> \<not> isLoading (authReducer s (LOGIN_FAILURE m))
       \<and> \<not> isAuthenticated (state (initAuth svc c))
       \<and> user (state (initAuth svc c)) = None
       \<and> \<not> isLoading (state (initAuth svc c))
       \<and> getItem ''accessToken'' (localStorage (initAuth svc c)) = None
       \<and> getItem ''refreshToken'' (localStorage (initAuth svc c)) = None"
proof -
  have inv: "isAuthenticated (foldl authReducer initialState acts)
            \<longrightarrow> user (foldl authReducer initialState acts) \<noteq> None"
    by (rule reachable_inv) (simp add: initialState_def)
  have init: "initAuth svc c =
      dispatch (SET_LOADING False) (store_remove ''refreshToken'' (store_remove ''accessToken'' c))"
    using assms(1-3) by (simp add: initAuth_def truthy_def)
  show ?thesis
    using inv assms(4)
    by (simp add: init dispatch_def store_remove_def removeItem_def getItem_def initialState_def)
qed

text \<open>The amended C1 at a client holding stale tokens, and at a reached authenticated state.\<close>

theorem auth_invariant_and_startup_witness:
  "getItem ''accessToken'' (localStorage client_stale_token) = Some ''a1''
   \<and> svc_getCurrentUser svc_invalid (localStorage client_stale_token) = Inl (Error ''Unauthorized'')
   \<and> state client_stale_token = initialState
   \<and> isAuthenticated (foldl authReducer initialState [LOGIN_START, LOGIN_SUCCESS ''alice''])
   \<and> user (foldl authReducer initialState [LOGIN_START, LOGIN_SUCCESS ''alice'']) \<noteq> None
   \<and> \<not> isAuthenticated (state (initAuth svc_invalid client_stale_token))
   \<and> getItem ''accessToken'' (localStorage (initAuth svc_invalid client_stale_token)) = None
   \<and> getItem ''refreshToken'' (localStorage (initAuth svc_invalid client_stale_token)) = None"
proof -
  have h1: "getItem ''accessToken'' (localStorage client_stale_token) = Some ''a1''"
    by (simp add: client_stale_token_def getItem_def)
  have h2: "''a1'' \<noteq> []" by simp
  have h3: "svc_getCurrentUser svc_invalid (localStorage client_stale_token) = Inl (Error ''Unauthorized'')"
    by (simp add: svc_invalid_def)
  have h4: "state client_stale_token = initialState"
    by (simp add: client_stale_token_def)
  have auth: "isAuthenticated (foldl authReducer initialState [LOGIN_START, LOGIN_SUCCESS ''alice''])"
    by (simp add: initialState_def)
  show ?thesis
    using auth_invariant_and_startup [OF h1 h2 h3 h4, of "[LOGIN_START, LOGIN_SUCCESS ''alice'']"] h1 h3 h4 auth
    by simp
qed

text \<open>
  C2, as stated, fails when no refresh token is stored: \<open>refreshToken\<close> rejects, but it
  does not log out. The stored access token stays and the state stays authenticated.
\<close>

theorem refreshToken_no_token_counterexample:
  "getItem ''refreshToken'' (localStorage client_no_refresh) = None
   \<and> fst (refreshToken svc_refresh_fails client_no_refresh) = Inl (Error ''No refresh token available'')
   \<and> getItem ''accessToken'' (localStorage (snd (refreshToken svc_refresh_fails client_no_refresh)))
       = Some ''a1''
   \<and> isAuthenticated (state (snd (refreshToken svc_refresh_fails client_no_refresh)))
   \<and> state (snd (refreshToken svc_refresh_fails client_no_refresh))
       \<noteq> authReducer (state client_no_refresh) LOGOUT"
  by (simp add: client_no_refresh_def refreshToken_def getItem_def)

text \<open>
  C2 (amended): if no refresh token is stored (or the stored one is the empty string),
  \<open>refreshToken\<close> rejects with the error \<open>No refresh token available\<close> and leaves
  storage and state as they were; if a non-empty refresh token is stored and the refresh
  call fails, \<open>refreshToken\<close> rejects with that same failure and the \<open>logout\<close> it
  started removes both tokens and dispatches \<open>LOGOUT\<close>.
\<close>

theorem refreshToken_failure_paths:
  "(\<not> truthy (getItem ''refreshToken'' (localStorage c)) \<longrightarrow>
      refreshToken svc c = (Inl (Error ''No refresh token available''), c))
   \<and> (getItem ''refreshToken'' (localStorage c) = Some tok \<and> tok \<noteq> []
        \<and> svc_refreshToken svc tok = Inl e \<longrightarrow>
      fst (refreshToken svc c) = Inl e
      \<and> getItem ''accessToken'' (localStorage (snd (refreshToken svc c))) = None
      \<and> getItem ''refreshToken'' (localStorage (snd (refreshToken svc c))) = None
      \<and> state (snd (refreshToken svc c)) = authReducer (state c) LOGOUT)"
  by (simp add: refreshToken_def truthy_def logout_def dispatch_def store_remove_def
      removeItem_def getItem_def split: option.splits)

text \<open>The amended C2 on both paths: without a refresh token, and with a rejected one.\<close>

theorem refreshToken_failure_paths_witness:
  "\<not> truthy (getItem ''refreshToken'' (localStorage client_no_refresh))
   \<and> refreshToken svc_refresh_fails client_no_refresh
        = (Inl (Error ''No refresh token available''), client_no_refresh)
   \<and> getItem ''refreshToken'' (localStorage client_signed_in) = Some ''r1''
   \<and> svc_refreshToken svc_refresh_fails ''r1'' = Inl (Error ''Request failed with status code 401'')
   \<and> fst (refreshToken svc_refresh_fails client_signed_in)
        = Inl (Error ''Request failed with status code 401'')
   \<and> getItem ''accessToken'' (localStorage (snd (refreshToken svc_refresh_fails client_signed_in))) = None
   \<and> getItem ''refreshToken'' (localStorage (snd (refreshToken svc_refresh_fails client_signed_in))) = None
   \<and> \<not> isAuthenticated (state (snd (refreshToken svc_refresh_fails client_signed_in)))"
proof -
  have h1: "\<not> truthy (getItem ''refreshToken'' (localStorage client_no_refresh))"
    by (simp add: client_no_refresh_def getItem_def truthy_def)
  have h2: "getItem ''refreshToken'' (localStorage client_signed_in) = Some ''r1''"
    by (simp add: client_signed_in_def getItem_def)
  have h3: "svc_refreshToken svc_refresh_fails ''r1'' = Inl (Error ''Request failed with status code 401'')"
    by (simp add: svc_refresh_fails_def)
  have h4: "''r1'' \<noteq> []" by simp
  have a: "refreshToken svc_refresh_fails client_no_refresh
        = (Inl (Error ''No refresh token available''), client_no_refresh)"
    using refreshToken_failure_paths [where c = client_no_refresh and svc = svc_refresh_fails] h1
    by blast
  have b: "fst (refreshToken svc_refresh_fails client_signed_in)
        = Inl (Error ''Request failed with status code 401'')
      \<and> getItem ''accessToken'' (localStorage (snd (refreshToken svc_refresh_fails client_signed_in))) = None
      \<and> getItem ''refreshToken'' (localStorage (snd (refreshToken svc_refresh_fails client_signed_in))) = None
      \<and> state (snd (refreshToken svc_refresh_fails client_signed_in))
           = authReducer (state client_signed_in) LOGOUT"
    using refreshToken_failure_paths [where c = client_signed_in and svc = svc_refresh_fails
        and tok = "''r1''" and e = "Error ''Request failed with status code 401''"] h2 h3 h4
    by blast
  show ?thesis using h1 h2 h3 a b by simp
qed

text \<open>
  C3, as stated, fails: when the response signals \<open>mfa_required\<close> the error is thrown
  inside the \<open>try\<close> block and caught there, so the promise returned by \<open>login\<close>
  resolves; nothing is rejected to the caller.
\<close>

theorem login_mfa_resolves_counterexample:
  "svc_login svc_mfa ''a@example.com'' ''pw''
     = Inr \<lparr>mfa_required = True, access_token = [], refresh_token = []\<rparr>
   \<and> fst (login svc_mfa ''a@example.com'' ''pw'' client_stale_token) = Inr ()
   \<and> fst (login svc_mfa ''a@example.com'' ''pw'' client_stale_token)
        \<noteq> Inl (Error ''MFA not implemented in this demo'')"
  by (simp add: svc_mfa_def login_def login_try_def)

text \<open>
  C3 (amended): for every login call whose response signals \<open>mfa_required\<close>, \<open>login\<close>
  resolves, and the unimplemented-MFA error is reported through the state: a
  \<open>LOGIN_FAILURE\<close> with the message \<open>MFA not implemented in this demo\<close>, which leaves the
  client unauthenticated, without user, and not loading.
\<close>

theorem login_mfa_reported_in_state:
  assumes "svc_login svc mail pwd = Inr response" and "mfa_required response"
  shows "login svc mail pwd c =
           (Inr (), c\<lparr>state := (state c)\<lparr>user := None, isAuthenticated := False, isLoading := False,
                                         error := Some ''MFA not implemented in this demo''\<rparr>\<rparr>)"
  using assms by (simp add: login_def login_try_def dispatch_def message_or_def)

text \<open>The amended C3 at a service that always asks for MFA.\<close>

theorem login_mfa_reported_in_state_witness:
  "svc_login svc_mfa ''a@example.com'' ''pw''
     = Inr \<lparr>mfa_required = True, access_token = [], refresh_token = []\<rparr>
   \<and> mfa_required \<lparr>mfa_required = True, access_token = [], refresh_token = []\<rparr>
   \<and> fst (login svc_mfa ''a@example.com'' ''pw'' client_signed_in) = Inr ()
   \<and> error (state (snd (login svc_mfa ''a@example.com'' ''pw'' client_signed_in)))
        = Some ''MFA not implemented in this demo''
   \<and> \<not> isAuthenticated (state (snd (login svc_mfa ''a@example.com'' ''pw'' client_signed_in)))"
proof -
  have h1: "svc_login svc_mfa ''a@example.com'' ''pw''
     = Inr \<lparr>mfa_required = True, access_token = [], refresh_token = []\<rparr>"
    by (simp add: svc_mfa_def)
  have h2: "mfa_required \<lparr>mfa_required = True, access_token = [], refresh_token = []\<rparr>"
    by simp
  show ?thesis
    using login_mfa_reported_in_state [OF h1 h2, of client_signed_in] h1 by simp
qed

text \<open>
  C9: when the login response signals \<open>mfa_required\<close>, \<open>login\<close> leaves \<open>localStorage\<close>
  exactly as it was before the call: the error is raised before the tokens are stored.
\<close>

theorem login_mfa_keeps_storage:
  assumes "svc_login svc mail pwd = Inr response" and "mfa_required response"
  shows "localStorage (snd (login svc mail pwd c)) = localStorage c"
  using assms by (simp add: login_def login_try_def dispatch_def)

text \<open>C9 at a signed-in client: both stored tokens are still the old ones.\<close>

theorem login_mfa_keeps_storage_witness:
  "svc_login svc_mfa ''a@example.com'' ''pw''
     = Inr \<lparr>mfa_required = True, access_token = [], refresh_token = []\<rparr>
   \<and> getItem ''accessToken'' (localStorage (snd (login svc_mfa ''a@example.com'' ''pw'' client_signed_in)))
        = Some ''a1''
   \<and> getItem ''refreshToken'' (localStorage (snd (login svc_mfa ''a@example.com'' ''pw'' client_signed_in)))
        = Some ''r1''"
proof -
  have h1: "svc_login svc_mfa ''a@example.com'' ''pw''
     = Inr \<lparr>mfa_required = True, access_token = [], refresh_token = []\<rparr>"
    by (simp add: svc_mfa_def)
  have h2: "mfa_required \<lparr>mfa_required = True, access_token = [], refresh_token = []\<rparr>"
    by simp
  show ?thesis
    using login_mfa_keeps_storage [OF h1 h2, of client_signed_in] h1
    by (simp add: client_signed_in_def getItem_def)
qed

section \<open>Properties of the dashboard figures\<close>

lemma or_zero_Num:
  "or_zero (Some (Num x)) = Num x"
  by (simp add: or_zero_def zero_js_number_def)

lemma foldl_exact_sums:
  "map current_balance accts = map Num xs \<Longrightarrow> exact_sums acc xs \<Longrightarrow>
   foldl (\<lambda>sum account. sum + current_balance account) (Num acc) accts
     = Num (acc + sum_list xs)"
proof (induction xs arbitrary: accts acc)
  case Nil
  then show ?case by simp
next
  case (Cons x xs)
  from Cons.prems(1) obtain a as where accts: "accts = a # as"
    and a: "current_balance a = Num x" and as: "map current_balance as = map Num xs"
    by (cases accts) auto
  from Cons.prems(2) have step: "Num acc + Num x = Num (acc + x)"
    by (simp add: plus_js_number_def representable_def)
  from Cons.prems(2) have "exact_sums (acc + x) xs"
    by simp
  from Cons.IH [OF as this] show ?case
    by (simp add: accts a step add.assoc)
qed

text \<open>
  The total balance is not the sum of the fetched balances in general, because the page
  adds JavaScript numbers: for two accounts with balances 0.1 and 0.2, fetched as the
  doubles 3602879701896397 / 2^55 and 3602879701896397 / 2^54, the total balance is the
  double 1351079888211149 / 2^52 (displayed 0.30000000000000004), which is not the sum of
  the two fetched values.
\<close>

theorem dashboard_total_balance_counterexample:
  "map current_balance tenths_balances
     = [Num (3602879701896397 / 36028797018963968), Num (3602879701896397 / 18014398509481984)]
   \<and> totalBalance (Some tenths_balances) = Num (1351079888211149 / 4503599627370496)
   \<and> totalBalance (Some tenths_balances)
       \<noteq> Num (sum_list [3602879701896397 / 36028797018963968,
                           3602879701896397 / 18014398509481984])"
  by code_simp

text \<open>
  C6 (amended): the figures are functions of the fetched data alone, computed in double
  precision: the total balance adds the fetched balances from 0 in their order and the
  net income subtracts the expenses from the income, each operation rounded to the
  nearest double. Whenever the fetched balances are finite, every running sum of them is
  a double, and the income, the expenses and their difference are finite doubles, the
  total balance is the sum of the balances and the net income is the income minus the
  expenses.
\<close>

theorem dashboard_figures:
  assumes "map current_balance accts = map Num xs"
    and "exact_sums 0 xs"
    and "total_income summary = Num i"
    and "total_expenses summary = Num e"
    and "representable (i - e)"
  shows "totalBalance (Some accts) = Num (sum_list xs)
         \<and> netIncome (Some summary) = Num (i - e)"
proof -
  have "foldl (\<lambda>sum account. sum + current_balance account) (Num 0) accts = Num (0 + sum_list xs)"
    using assms(1,2) by (rule foldl_exact_sums)
  then have total: "totalBalance (Some accts) = Num (sum_list xs)"
    by (simp add: totalBalance_def zero_js_number_def or_zero_Num)
  have "Num i - Num e = Num (i - e)"
    using assms(5) by (simp add: minus_js_number_def representable_def)
  then have "netIncome (Some summary) = Num (i - e)"
    by (simp add: netIncome_def thisMonthIncome_def thisMonthExpenses_def assms(3,4) or_zero_Num)
  with total show ?thesis
    by simp
qed

text \<open>
  The example of C6: for the balances 100.00, -50.00, 2000.00 and a summary of income
  3000.00 and expenses 1200.00 every running sum (100, 50, 2050) and the difference are
  doubles, the total balance is 2050.00 and the net income is 1800.00.
\<close>

theorem dashboard_figures_witness:
  "map current_balance example_balances = map Num [100, - 50, 2000]
   \<and> exact_sums 0 [100, - 50, 2000]
   \<and> total_income example_summary = Num 3000
   \<and> total_expenses example_summary = Num 1200
   \<and> representable (3000 - 1200)
   \<and> totalBalance (Some example_balances) = Num 2050
   \<and> netIncome (Some example_summary) = Num 1800"
proof -
  have 1: "map current_balance example_balances = map Num [100, - 50, 2000]"
    by (simp add: example_balances_def)
  have 2: "exact_sums 0 [100, - 50, 2000]"
    by code_simp
  have 3: "total_income example_summary = Num 3000"
    and 4: "total_expenses example_summary = Num 1200"
    by (simp_all add: example_summary_def)
  have 5: "representable (3000 - 1200)"
    by code_simp
  from dashboard_figures [OF 1 2 3 4 5] 1 2 3 4 5 show ?thesis
    by simp
qed

text \<open>
  C10: with the accounts query result \<open>undefined\<close> the total balance is 0, and with the
  summary \<open>undefined\<close> the monthly income and the monthly expenses are 0, hence the net
  income is 0; the derivations are total.
\<close>

theorem dashboard_missing_data:
  "totalBalance None = 0 \<and> thisMonthIncome None = 0 \<and> thisMonthExpenses None = 0
   \<and> netIncome None = 0"
  by (simp add: totalBalance_def netIncome_def thisMonthIncome_def thisMonthExpenses_def
      or_zero_def zero_js_number_def minus_js_number_def round_double_def)

section \<open>Properties of the view \<open>user_account_summary\<close>\<close>

lemma fst_join_user: "r \<in> set (join_user accts u) \<Longrightarrow> fst r = u"
  by (auto simp: join_user_def Let_def split: if_splits)

lemma join_user_nonempty: "join_user accts u \<noteq> []"
  by (simp add: join_user_def Let_def)

lemma where_active_join_user:
  "where_active (join_user accts u) = (if u_is_active u = Some True then join_user accts u else [])"
proof (cases "u_is_active u = Some True")
  case True
  then have "\<forall>r\<in>set (join_user accts u). u_is_active (fst r) = Some True"
    by (simp add: fst_join_user)
  then show ?thesis using True by (simp add: where_active_def)
next
  case False
  then have "\<forall>r\<in>set (join_user accts u). u_is_active (fst r) \<noteq> Some True"
    by (simp add: fst_join_user)
  then show ?thesis using False by (simp add: where_active_def)
qed

lemma where_active_Cons:
  "where_active (left_join (v # vs) accts) =
     where_active (join_user accts v) @ where_active (left_join vs accts)"
  by (simp add: where_active_def left_join_def)

lemma rows_from_users:
  "r \<in> set (where_active (left_join us accts)) \<Longrightarrow> fst r \<in> set us \<and> u_is_active (fst r) = Some True"
  by (auto simp: where_active_def left_join_def dest: fst_join_user)

lemma group_key_join_user:
  "map group_key (join_user accts u) = replicate (length (join_user accts u)) (group_key (u, None))"
proof -
  have "\<forall>r\<in>set (join_user accts u). group_key r = group_key (u, None)"
    by (simp add: group_key_def fst_join_user)
  then show ?thesis by (simp add: map_replicate_const [symmetric] cong: map_cong)
qed

lemma remdups_replicate_append:
  "0 < n \<Longrightarrow> k \<notin> set ys \<Longrightarrow> remdups (replicate n k @ ys) = k # remdups ys"
proof (induction n)
  case 0
  then show ?case by simp
next
  case (Suc n)
  then show ?case by (cases n) simp_all
qed

lemma key_not_in_rows:
  assumes "u_id v \<notin> u_id ` set vs"
  shows "group_key (v, x) \<notin> set (map group_key (where_active (left_join vs accts)))"
proof
  assume "group_key (v, x) \<in> set (map group_key (where_active (left_join vs accts)))"
  then obtain r where r: "r \<in> set (where_active (left_join vs accts))" and k: "group_key r = group_key (v, x)"
    by auto
  from r have "fst r \<in> set vs" by (simp add: rows_from_users)
  moreover from k have "u_id (fst r) = u_id v" by (simp add: group_key_def)
  ultimately have "u_id v \<in> u_id ` set vs" by (metis imageI)
  then show False using assms by simp
qed

lemma group_keys:
  "distinct (map u_id us) \<Longrightarrow>
   remdups (map group_key (where_active (left_join us accts))) =
     map (\<lambda>u. group_key (u, None)) (filter (\<lambda>u. u_is_active u = Some True) us)"
proof (induction us)
  case Nil
  then show ?case by (simp add: where_active_def left_join_def)
next
  case (Cons v vs)
  have notin: "group_key (v, None) \<notin> set (map group_key (where_active (left_join vs accts)))"
    using Cons.prems by (intro key_not_in_rows) simp
  have IH: "remdups (map group_key (where_active (left_join vs accts))) =
     map (\<lambda>u. group_key (u, None)) (filter (\<lambda>u. u_is_active u = Some True) vs)"
    using Cons by simp
  show ?case
  proof (cases "u_is_active v = Some True")
    case True
    have len: "0 < length (join_user accts v)" using join_user_nonempty by simp
    show ?thesis
      using True IH remdups_replicate_append [OF len notin]
      by (simp add: where_active_Cons where_active_join_user group_key_join_user)
  next
    case False
    then show ?thesis using IH by (simp add: where_active_Cons where_active_join_user)
  qed
qed

lemma group_rows_other:
  "u_id u \<notin> u_id ` set vs \<Longrightarrow>
   filter (\<lambda>r. group_key r = group_key (u, x)) (where_active (left_join vs accts)) = []"
proof -
  assume "u_id u \<notin> u_id ` set vs"
  then have "group_key (u, x) \<notin> set (map group_key (where_active (left_join vs accts)))"
    by (rule key_not_in_rows)
  then have "\<forall>r\<in>set (where_active (left_join vs accts)). group_key r \<noteq> group_key (u, x)"
    by (metis imageI set_map)
  then show ?thesis by (simp add: filter_empty_conv)
qed

lemma group_rows_same:
  "filter (\<lambda>r. group_key r = group_key (u, x)) (join_user accts u) = join_user accts u"
proof -
  have "\<forall>r\<in>set (join_user accts u). group_key r = group_key (u, x)"
    by (simp add: group_key_def fst_join_user)
  then show ?thesis by simp
qed

lemma group_rows_diff:
  "u_id v \<noteq> u_id u \<Longrightarrow>
   filter (\<lambda>r. group_key r = group_key (u, x)) (join_user accts v) = []"
proof -
  assume "u_id v \<noteq> u_id u"
  then have "\<forall>r\<in>set (join_user accts v). group_key r \<noteq> group_key (u, x)"
    by (simp add: group_key_def fst_join_user)
  then show ?thesis by (simp add: filter_empty_conv)
qed

lemma group_rows:
  "distinct (map u_id us) \<Longrightarrow> u \<in> set us \<Longrightarrow> u_is_active u = Some True \<Longrightarrow>
   filter (\<lambda>r. group_key r = group_key (u, None)) (where_active (left_join us accts)) =
     join_user accts u"
proof (induction us)
  case Nil
  then show ?case by simp
next
  case (Cons v vs)
  show ?case
  proof (cases "v = u")
    case True
    then have "u_id u \<notin> u_id ` set vs" using Cons.prems(1) by simp
    then show ?thesis
      using True Cons.prems(3)
      by (simp add: where_active_Cons where_active_join_user group_rows_same group_rows_other)
  next
    case False
    then have mem: "u \<in> set vs" using Cons.prems(2) by simp
    then have "u_id v \<noteq> u_id u" using Cons.prems(1) by force
    then show ?thesis
      using Cons mem
      by (simp add: where_active_Cons where_active_join_user group_rows_diff)
  qed
qed


lemma sum_case_values:
  "sum_list (concat (map (\<lambda>v. case v of None \<Rightarrow> [] | Some x \<Rightarrow> [x])
                      (map (\<lambda>a. case_balance types (Some a)) ms))) = balance_sum types ms"
  by (induction ms) (auto simp: case_balance_def balance_sum_def split: option.splits)

lemma no_case_values:
  "(concat (map (\<lambda>v. case v of None \<Rightarrow> [] | Some x \<Rightarrow> [x])
             (map (\<lambda>a. case_balance types (Some a)) ms)) = [])
   = list_all (\<lambda>a. a_account_type a \<in> set types \<and> a_current_balance a = None) ms"
  by (induction ms) (auto simp: case_balance_def split: option.splits)

lemma sql_sum_case_balance:
  assumes "ms \<noteq> []"
  shows "sql_sum (map (\<lambda>a. case_balance types (Some a)) ms) =
           (if only_null_balances types ms then None else Some (balance_sum types ms))"
  unfolding sql_sum_def Let_def no_case_values sum_case_values only_null_balances_def
  using assms by simp

lemma join_on_filter: "filter (join_on u) accts = active_accounts_of u accts"
  by (auto simp: join_on_def active_accounts_of_def intro: filter_cong)

lemma summarise_join_user:
  "summarise (group_key (u, None)) (join_user accts u) =
     \<lparr>user_id = u_id u, email = u_email u, first_name = u_first_name u, last_name = u_last_name u,
      total_accounts = length (active_accounts_of u accts),
      total_cash =
        (if only_null_balances [Checking, Savings] (active_accounts_of u accts) then None
         else Some (balance_sum [Checking, Savings] (active_accounts_of u accts))),
      total_credit_debt =
        (if only_null_balances [Credit_Card] (active_accounts_of u accts) then None
         else Some (balance_sum [Credit_Card] (active_accounts_of u accts))),
      total_investments =
        (if only_null_balances [Investment] (active_accounts_of u accts) then None
         else Some (balance_sum [Investment] (active_accounts_of u accts)))\<rparr>"
proof (cases "active_accounts_of u accts = []")
  case True
  then show ?thesis
    by (simp add: summarise_def group_key_def join_user_def join_on_filter sql_count_def
        sql_sum_def case_balance_def balance_sum_def only_null_balances_def)
next
  case False
  show ?thesis
    using False
    by (simp add: summarise_def group_key_def join_user_def join_on_filter sql_count_def
        comp_def sql_sum_case_balance [OF False])
qed

text \<open>
  C7, as stated, fails for a \<open>NULL\<close> balance, which the column allows: for an active user
  whose only account is an active checking account with a \<open>NULL\<close> balance the view's
  total cash is \<open>NULL\<close>, not the sum of the balances.
\<close>

theorem user_account_summary_null_counterexample:
  "user_account_summary null_balance_users null_balance_accounts =
     [\<lparr>user_id = 1, email = ''ann@example.com'', first_name = ''Ann'', last_name = ''Lee'',
       total_accounts = 1, total_cash = None, total_credit_debt = Some 0,
       total_investments = Some 0\<rparr>]
   \<and> balance_sum [Checking, Savings] null_balance_accounts = 0"
  by code_simp

text \<open>
  C7 (amended): for every table of users (with \<open>id\<close> the primary key) and every table of
  accounts, the view has exactly one row for each active user and none for any other; the
  row gives the number of the user's active accounts, as total cash the sum of
  \<open>current_balance\<close> over those of type checking or savings, as total credit-card debt
  the sum over those of type credit_card and as total investments the sum over those of
  type investment, a \<open>NULL\<close> balance adding nothing; but a total is \<open>NULL\<close> when the
  user has active accounts and each of them is of the summed type with a \<open>NULL\<close>
  balance.
\<close>

theorem user_account_summary_correct:
  assumes "distinct (map u_id us)"
  shows "user_account_summary us accts =
     map (\<lambda>u. \<lparr>user_id = u_id u, email = u_email u, first_name = u_first_name u,
                last_name = u_last_name u,
                total_accounts = length (active_accounts_of u accts),
                total_cash =
                  (if only_null_balances [Checking, Savings] (active_accounts_of u accts) then None
                   else Some (balance_sum [Checking, Savings] (active_accounts_of u accts))),
                total_credit_debt =
                  (if only_null_balances [Credit_Card] (active_accounts_of u accts) then None
                   else Some (balance_sum [Credit_Card] (active_accounts_of u accts))),
                total_investments =
                  (if only_null_balances [Investment] (active_accounts_of u accts) then None
                   else Some (balance_sum [Investment] (active_accounts_of u accts)))\<rparr>)
         (filter (\<lambda>u. u_is_active u = Some True) us)"
proof -
  let ?rows = "where_active (left_join us accts)"
  let ?act = "filter (\<lambda>u. u_is_active u = Some True) us"
  have "user_account_summary us accts =
      map (\<lambda>u. summarise (group_key (u, None)) (filter (\<lambda>r. group_key r = group_key (u, None)) ?rows)) ?act"
    by (simp add: user_account_summary_def Let_def group_keys [OF assms] comp_def)
  also have "\<dots> = map (\<lambda>u. summarise (group_key (u, None)) (join_user accts u)) ?act"
    by (rule map_cong) (simp_all add: group_rows [OF assms])
  finally show ?thesis by (simp only: summarise_join_user)
qed

text \<open>
  The amended C7 at two active users and an inactive one, with active and inactive
  accounts and with \<open>NULL\<close> balances.
\<close>

theorem user_account_summary_correct_witness:
  "distinct (map u_id example_users)
   \<and> user_account_summary example_users accounts_with_nulls =
       [\<lparr>user_id = 1, email = ''ann@example.com'', first_name = ''Ann'', last_name = ''Lee'',
         total_accounts = 5, total_cash = Some 150, total_credit_debt = Some 70,
         total_investments = Some 0\<rparr>,
        \<lparr>user_id = 3, email = ''cy@example.com'', first_name = ''Cy'', last_name = ''Ray'',
         total_accounts = 1, total_cash = Some 0, total_credit_debt = Some 0,
         total_investments = None\<rparr>]"
proof -
  have h1: "distinct (map u_id example_users)"
    by (simp add: example_users_def)
  show ?thesis
    using user_account_summary_correct [OF h1, of accounts_with_nulls] h1
    by (simp add: example_users_def example_accounts_def accounts_with_nulls_def
        active_accounts_of_def balance_sum_def only_null_balances_def)
qed

section \<open>Properties of the deletion of a user\<close>

lemma del_users_eq:
  "uid \<in> set (map u_id (tbl_users db)) \<Longrightarrow>
   set (map u_id (filter (\<lambda>u. u_id u = uid) (tbl_users db))) = {uid}"
  by auto

lemma cascade_no_reference: "k \<in> set deleted \<Longrightarrow> k \<notin> set (map fk (on_delete_cascade fk deleted rows))"
  by (auto simp: on_delete_cascade_def)

lemma cascade_disjoint:
  "set (map fk (on_delete_cascade fk deleted rows)) \<inter> set deleted = {}"
  by (auto simp: on_delete_cascade_def)

text \<open>
  C8: deleting an existing user's row leaves no account of that user, no transaction of
  any of the user's former accounts, no budget, goal, chat conversation, recurring
  transaction, bill reminder, financial report or session of that user and no chat
  message of any of the user's former conversations; every audit-log row is retained, and
  those that referenced the user have their user reference set to \<open>NULL\<close>.
\<close>

theorem delete_user_cascades:
  assumes "uid \<in> set (map u_id (tbl_users db))"
  shows "uid \<notin> set (map u_id (tbl_users (delete_user uid db)))
   \<and> uid \<notin> set (map a_user_id (tbl_accounts (delete_user uid db)))
   \<and> set (map t_account_id (tbl_transactions (delete_user uid db)))
        \<inter> set (map a_id (accounts_of uid db)) = {}
   \<and> uid \<notin> set (map b_user_id (tbl_budgets (delete_user uid db)))
   \<and> uid \<notin> set (map g_user_id (tbl_goals (delete_user uid db)))
   \<and> uid \<notin> set (map cc_user_id (tbl_chat_conversations (delete_user uid db)))
   \<and> set (map cm_conversation_id (tbl_chat_messages (delete_user uid db)))
        \<inter> set (map cc_id (conversations_of uid db)) = {}
   \<and> uid \<notin> set (map rt_user_id (tbl_recurring_transactions (delete_user uid db)))
   \<and> set (map rt_account_id (tbl_recurring_transactions (delete_user uid db)))
        \<inter> set (map a_id (accounts_of uid db)) = {}
   \<and> uid \<notin> set (map br_user_id (tbl_bill_reminders (delete_user uid db)))
   \<and> uid \<notin> set (map fr_user_id (tbl_financial_reports (delete_user uid db)))
   \<and> uid \<notin> set (map us_user_id (tbl_user_sessions (delete_user uid db)))
   \<and> tbl_audit_logs (delete_user uid db) = map (null_user_reference uid) (tbl_audit_logs db)"
proof -
  let ?du = "map u_id (filter (\<lambda>u. u_id u = uid) (tbl_users db))"
  have du: "set ?du = {uid}" using assms by (rule del_users_eq)
  then have mem: "uid \<in> set ?du" by simp
  have da: "cascaded_keys a_user_id a_id ?du (tbl_accounts db) = map a_id (accounts_of uid db)"
    unfolding cascaded_keys_def accounts_of_def du by simp
  have dc: "cascaded_keys cc_user_id cc_id ?du (tbl_chat_conversations db)
             = map cc_id (conversations_of uid db)"
    unfolding cascaded_keys_def conversations_of_def du by simp
  have users: "uid \<notin> set (map u_id (tbl_users (delete_user uid db)))"
    by (auto simp: delete_user_def Let_def)
  have accts: "uid \<notin> set (map a_user_id (tbl_accounts (delete_user uid db)))"
    using cascade_no_reference [OF mem] by (simp add: delete_user_def Let_def)
  have trans: "set (map t_account_id (tbl_transactions (delete_user uid db)))
        \<inter> set (map a_id (accounts_of uid db)) = {}"
    using cascade_disjoint [of t_account_id "map a_id (accounts_of uid db)" "tbl_transactions db"]
    by (simp add: delete_user_def Let_def da)
  have budgets: "uid \<notin> set (map b_user_id (tbl_budgets (delete_user uid db)))"
    using cascade_no_reference [OF mem] by (simp add: delete_user_def Let_def)
  have goals: "uid \<notin> set (map g_user_id (tbl_goals (delete_user uid db)))"
    using cascade_no_reference [OF mem] by (simp add: delete_user_def Let_def)
  have convs: "uid \<notin> set (map cc_user_id (tbl_chat_conversations (delete_user uid db)))"
    using cascade_no_reference [OF mem] by (simp add: delete_user_def Let_def)
  have msgs: "set (map cm_conversation_id (tbl_chat_messages (delete_user uid db)))
        \<inter> set (map cc_id (conversations_of uid db)) = {}"
    using cascade_disjoint [of cm_conversation_id "map cc_id (conversations_of uid db)"
        "tbl_chat_messages db"]
    by (simp add: delete_user_def Let_def dc)
  have rec_u: "uid \<notin> set (map rt_user_id (tbl_recurring_transactions (delete_user uid db)))"
    using mem by (auto simp: delete_user_def Let_def on_delete_cascade_def)
  have rec_a: "set (map rt_account_id (tbl_recurring_transactions (delete_user uid db)))
        \<inter> set (map a_id (accounts_of uid db)) = {}"
    using cascade_disjoint [of rt_account_id "map a_id (accounts_of uid db)"]
    by (simp add: delete_user_def Let_def da)
  have bills: "uid \<notin> set (map br_user_id (tbl_bill_reminders (delete_user uid db)))"
    using cascade_no_reference [OF mem] by (simp add: delete_user_def Let_def)
  have reports: "uid \<notin> set (map fr_user_id (tbl_financial_reports (delete_user uid db)))"
    using cascade_no_reference [OF mem] by (simp add: delete_user_def Let_def)
  have sessions: "uid \<notin> set (map us_user_id (tbl_user_sessions (delete_user uid db)))"
    using cascade_no_reference [OF mem] by (simp add: delete_user_def Let_def)
  have "\<And>l. (case al_user_id l of None \<Rightarrow> l
               | Some k \<Rightarrow> if k \<in> set ?du then l\<lparr>al_user_id := None\<rparr> else l)
             = null_user_reference uid l"
    unfolding du by (simp add: null_user_reference_def split: option.splits)
  then have logs: "tbl_audit_logs (delete_user uid db) = map (null_user_reference uid) (tbl_audit_logs db)"
    by (simp add: delete_user_def Let_def on_delete_set_null_def)
  show ?thesis
    using users accts trans budgets goals convs msgs rec_u rec_a bills reports sessions logs
    by blast
qed

text \<open>C8 at the example database, deleting user 1.\<close>

theorem delete_user_cascades_witness:
  "1 \<in> set (map u_id (tbl_users example_db))
   \<and> map a_id (accounts_of 1 example_db) = [10, 11, 12, 13, 14]
   \<and> map cc_id (conversations_of 1 example_db) = [''c-1'']
   \<and> 1 \<notin> set (map u_id (tbl_users (delete_user 1 example_db)))
   \<and> 1 \<notin> set (map a_user_id (tbl_accounts (delete_user 1 example_db)))
   \<and> set (map t_account_id (tbl_transactions (delete_user 1 example_db)))
        \<inter> set (map a_id (accounts_of 1 example_db)) = {}
   \<and> map t_id (tbl_transactions (delete_user 1 example_db)) = [101]
   \<and> set (map cm_conversation_id (tbl_chat_messages (delete_user 1 example_db)))
        \<inter> set (map cc_id (conversations_of 1 example_db)) = {}
   \<and> map cm_id (tbl_chat_messages (delete_user 1 example_db)) = [2]
   \<and> 1 \<notin> set (map us_user_id (tbl_user_sessions (delete_user 1 example_db)))
   \<and> tbl_audit_logs (delete_user 1 example_db) =
        [\<lparr>al_id = 1, al_user_id = None\<rparr>, \<lparr>al_id = 2, al_user_id = Some 2\<rparr>,
         \<lparr>al_id = 3, al_user_id = None\<rparr>, \<lparr>al_id = 4, al_user_id = None\<rparr>]"
proof -
  have h: "1 \<in> set (map u_id (tbl_users example_db))"
    by (simp add: example_db_def example_users_def)
  have accts: "map a_id (accounts_of 1 example_db) = [10, 11, 12, 13, 14]"
    by (simp add: accounts_of_def example_db_def example_accounts_def)
  have convs: "map cc_id (conversations_of 1 example_db) = [''c-1'']"
    by (simp add: conversations_of_def example_db_def)
  have logs: "map (null_user_reference 1) (tbl_audit_logs example_db) =
        [\<lparr>al_id = 1, al_user_id = None\<rparr>, \<lparr>al_id = 2, al_user_id = Some 2\<rparr>,
         \<lparr>al_id = 3, al_user_id = None\<rparr>, \<lparr>al_id = 4, al_user_id = None\<rparr>]"
    by (simp add: null_user_reference_def example_db_def)
  have trans: "map t_id (tbl_transactions (delete_user 1 example_db)) = [101]"
    by (simp add: delete_user_def Let_def example_db_def example_users_def example_accounts_def
        cascaded_keys_def on_delete_cascade_def)
  have msgs: "map cm_id (tbl_chat_messages (delete_user 1 example_db)) = [2]"
    by (simp add: delete_user_def Let_def example_db_def example_users_def
        cascaded_keys_def on_delete_cascade_def)
  show ?thesis
    using delete_user_cascades [OF h] h accts convs logs trans msgs by simp
qed

section \<open>Properties of the operational scripts\<close>




























text \<open>
  Two places where the script does not do what it is written to do. After a fresh
  checkout no directory holds a link to the results folder: with every command
  succeeding and every test passing, the first \<open>record_test\<close>, called in \<open>backend\<close>,
  cannot append to its relative path and the script ends there with status 1; the other
  report files are written under \<open>../$TEST_RESULTS_DIR\<close>. And the end-to-end run is one
  of the commands outside a condition: with Playwright configured, a failing run ends
  the script with status 1 at once and nothing is recorded for it, although the branch
  that would record \<open>FAIL\<close> and go on is written right after it. A failing mobile test,
  run inside a condition, is recorded as \<open>FAIL\<close> and the script exits with status 0.
\<close>

lemma test_sh_fresh_checkout_exits:
  "all_succeed fresh_checkout test_sh_unguarded
   \<and> \<not> critical_test_failed fresh_checkout
   \<and> exit_status (test_sh fresh_checkout) = 1
   \<and> cwd (final_state (test_sh fresh_checkout)) = ''backend''
   \<and> TOTAL_TESTS (final_state (test_sh fresh_checkout)) = 0"
  by code_simp

text \<open>
  With a results folder of its own in each directory the script runs to its end, but the
  failure of the backend unit tests is recorded in a file that the final check does not
  read, and the exit status is 0.
\<close>

lemma test_sh_own_folders_miss_failure:
  "critical_test_failed own_folders
   \<and> results_txt_in ''backend/test-results'' (final_state (test_sh own_folders))
       = [''backend_unit_tests: FAIL - Some unit tests failed'',
          ''backend_integration_tests: PASS - All integration tests passed'',
          ''backend_security: PASS - No security issues found'',
          ''backend_code_quality: PASS - Code quality checks passed'',
          ''backend_type_checking: PASS - Type checking passed'']
   \<and> critical_failures (test_results_txt (final_state (test_sh own_folders))) = 0
   \<and> exit_status (test_sh own_folders) = 0"
  by code_simp

lemma test_sh_e2e_failure_exits:
  "exit_status (test_sh e2e_fails) = 1
   \<and> filter (contains ''FAIL'') (test_results_txt (final_state (test_sh e2e_fails))) = []
   \<and> critical_failures (test_results_txt (final_state (test_sh e2e_fails))) = 0
   \<and> exit_status (test_sh mobile_fails) = 0
   \<and> last (test_results_txt (final_state (test_sh mobile_fails)))
        = ''mobile_tests: FAIL - Mobile tests failed''"
  by code_simp










lemma orderly_if: "orderly env f \<Longrightarrow> orderly env g \<Longrightarrow> orderly env (if c then f else g)"
  by simp






















text \<open>
  Whatever the probes answer, the health checks themselves never end the script: a failed
  probe is printed as an error and the script goes on.
\<close>

lemma health_checks_never_exit: "\<exists>s'. health_checks env s = Running s'"
  by (simp add: health_checks_def if_cmd_def print_status_def print_success_def print_error_def)



end
